theory Spec2Isabelle
  imports Complex_Main
begin

section \<open>Values, errors and effects\<close>

text \<open>
  The values that \<^verbatim>\<open>json.loads\<close> and \<^verbatim>\<open>json.load\<close> produce: \<^verbatim>\<open>None\<close>, \<^verbatim>\<open>bool\<close>,
  \<^verbatim>\<open>int\<close>, \<^verbatim>\<open>float\<close>, \<^verbatim>\<open>str\<close>, \<^verbatim>\<open>list\<close> and \<^verbatim>\<open>dict\<close>. A dict is an association
  list read with \<open>map_of\<close>. A float is a rational or one of the three special values
  that the parser accepts; the code only ever asks whether it is zero.
\<close>

datatype pyfloat = Finite rat | PosInf | NegInf | NaN

datatype json =
    JNull
  | JBool bool
  | JInt int
  | JFloat pyfloat
  | JStr string
  | JArr "json list"
  | JObj "(string \<times> json) list"

text \<open>
  The subclasses of \<^verbatim>\<open>Exception\<close> that the modelled code can meet.
  \<open>PlainException\<close> is \<^verbatim>\<open>Exception(msg)\<close> itself; \<open>SourceFailure\<close> stands for whatever
  a library call raises while a source is read (base64, UTF-8 and JSON decoding,
  the Key Vault client, opening a file); \<open>PyodbcError\<close> is an exception of the
  database driver, tagged with the call that raised it.
\<close>

datatype db_stage = AtConnect | AtCursor | AtEnsureTable | AtCount | AtInsert | AtCommit

datatype error =
    DBNotConfigured string
  | PlainException string
  | SourceFailure
  | TypeError
  | AttributeError
  | KeyError
  | PyodbcError db_stage

datatype log_level = INFO | WARNING | ERROR

datatype statement = CreateTableIfAbsent | CountRows | InsertRow json json

text \<open>
  What the code does to the outside, in order. \<open>Log\<close> keeps the level and the
  format string of a logger call (the arguments are left out).
\<close>

datatype event =
    Log log_level string
  | PathExists string
  | OpenJson string
  | GetSecret string string
  | Connect string
  | Cursor
  | Execute statement
  | Fetchone
  | Commit
  | Close

text \<open>
  What the resolver reads. \<open>decode_json s\<close> stands for
  \<^verbatim>\<open>json.loads(base64.b64decode(s).decode('utf-8'))\<close> and is \<open>None\<close> when one of the
  three raises; \<open>get_secret url name\<close> is the value of the secret fetched with the
  ambient credential, \<open>None\<close> when the fetch raises or the secret has no value (the
  decoding of \<^verbatim>\<open>None\<close> raises in the same \<^verbatim>\<open>try\<close>); \<open>load_file p\<close> is
  \<^verbatim>\<open>json.load\<close> of the opened file, \<open>None\<close> when opening or parsing raises;
  \<open>package_root\<close> is \<^verbatim>\<open>Path(__file__).resolve().parents[1]\<close>.
\<close>

record world =
  environ :: "string \<rightharpoonup> string"
  decode_json :: "string \<Rightarrow> json option"
  get_secret :: "string \<Rightarrow> string \<Rightarrow> string option"
  package_root :: string
  path_exists :: "string \<Rightarrow> bool"
  load_file :: "string \<Rightarrow> json option"

section \<open>Python primitives\<close>

definition lower_char :: "char \<Rightarrow> char" where
  "lower_char c =
     (case map_of (zip ''ABCDEFGHIJKLMNOPQRSTUVWXYZ'' ''abcdefghijklmnopqrstuvwxyz'') c of
        None \<Rightarrow> c
      | Some l \<Rightarrow> l)"

text \<open>
  \<^verbatim>\<open>str.lower\<close> on the ASCII letters. The code compares the result only with ASCII
  literals.
\<close>

definition lower :: "string \<Rightarrow> string" where
  "lower s = map lower_char s"

text \<open>\<^verbatim>\<open>os.environ.get(k, default)\<close>.\<close>

definition environ_get :: "world \<Rightarrow> string \<Rightarrow> string \<Rightarrow> string" where
  "environ_get w k dflt = (case environ w k of None \<Rightarrow> dflt | Some v \<Rightarrow> v)"

text \<open>Truth value of an optional string: \<^verbatim>\<open>None\<close> and \<^verbatim>\<open>''\<close> are false.\<close>

fun str_truthy :: "string option \<Rightarrow> bool" where
  "str_truthy None = False"
| "str_truthy (Some s) = (s \<noteq> [])"

text \<open>\<^verbatim>\<open>a or b\<close> on optional strings.\<close>

definition str_or :: "string option \<Rightarrow> string option \<Rightarrow> string option" where
  "str_or a b = (if str_truthy a then a else b)"

fun truthy :: "json \<Rightarrow> bool" where
  "truthy JNull = False"
| "truthy (JBool b) = b"
| "truthy (JInt i) = (i \<noteq> 0)"
| "truthy (JFloat (Finite q)) = (q \<noteq> 0)"
| "truthy (JFloat _) = True"
| "truthy (JStr s) = (s \<noteq> [])"
| "truthy (JArr xs) = (xs \<noteq> [])"
| "truthy (JObj kvs) = (kvs \<noteq> [])"

text \<open>Truth value of what the resolver returns (\<^verbatim>\<open>None\<close> or a value).\<close>

fun opt_truthy :: "json option \<Rightarrow> bool" where
  "opt_truthy None = False"
| "opt_truthy (Some v) = truthy v"

text \<open>\<^verbatim>\<open>len(v)\<close>: defined on lists, dicts and strings, a \<^verbatim>\<open>TypeError\<close> elsewhere.\<close>

fun py_len :: "json \<Rightarrow> error + nat" where
  "py_len (JArr xs) = Inr (length xs)"
| "py_len (JObj kvs) = Inr (length kvs)"
| "py_len (JStr s) = Inr (length s)"
| "py_len _ = Inl TypeError"

text \<open>
  \<^verbatim>\<open>for item in v\<close>: the elements of a list, the keys of a dict, the characters of
  a string, a \<^verbatim>\<open>TypeError\<close> elsewhere.
\<close>

fun py_iter :: "json \<Rightarrow> error + json list" where
  "py_iter (JArr xs) = Inr xs"
| "py_iter (JObj kvs) = Inr (map (\<lambda>kv. JStr (fst kv)) kvs)"
| "py_iter (JStr s) = Inr (map (\<lambda>c. JStr [c]) s)"
| "py_iter _ = Inl TypeError"

text \<open>\<^verbatim>\<open>v.get(k, default)\<close>: only a dict has the method.\<close>

fun py_get :: "json \<Rightarrow> string \<Rightarrow> json \<Rightarrow> error + json" where
  "py_get (JObj kvs) k dflt = Inr (case map_of kvs k of None \<Rightarrow> dflt | Some v \<Rightarrow> v)"
| "py_get _ k dflt = Inl AttributeError"

text \<open>\<^verbatim>\<open>v[k]\<close> with a string key.\<close>

fun py_getitem :: "json \<Rightarrow> string \<Rightarrow> error + json" where
  "py_getitem (JObj kvs) k = (case map_of kvs k of None \<Rightarrow> Inl KeyError | Some v \<Rightarrow> Inr v)"
| "py_getitem _ k = Inl TypeError"

section \<open>Seed files\<close>

definition possible_paths :: "world \<Rightarrow> string list" where
  "possible_paths w =
     [package_root w @ ''/database/seed/quotes.json'',
      ''/app/database/seed/quotes.json'',
      ''database/seed/quotes.json'',
      ''../database/seed/quotes.json'']"

text \<open>
  \<^verbatim>\<open>[item for item in data if not item.get('_comment')]\<close> on the items of \<open>data\<close>:
  the first item without a \<^verbatim>\<open>get\<close> method raises.
\<close>

fun filter_comments :: "json list \<Rightarrow> error + json list" where
  "filter_comments [] = Inr []"
| "filter_comments (item # items) =
     (case py_get item ''_comment'' JNull of
        Inl e \<Rightarrow> Inl e
      | Inr c \<Rightarrow>
          (case filter_comments items of
             Inl e \<Rightarrow> Inl e
           | Inr rest \<Rightarrow> Inr (if \<not> truthy c then item # rest else rest)))"

text \<open>The body of the \<^verbatim>\<open>try\<close> for one seed path: open, parse, filter.\<close>

definition read_seed :: "world \<Rightarrow> string \<Rightarrow> error + json list" where
  "read_seed w p =
     (case load_file w p of
        None \<Rightarrow> Inl SourceFailure
      | Some data \<Rightarrow>
          (case py_iter data of
             Inl e \<Rightarrow> Inl e
           | Inr items \<Rightarrow> filter_comments items))"

text \<open>The \<^verbatim>\<open>for seed_path in possible_paths\<close> loop.\<close>

fun seed_loop :: "world \<Rightarrow> string list \<Rightarrow> json option \<times> event list" where
  "seed_loop w [] = (None, [])"
| "seed_loop w (p # ps) =
     (if path_exists w p then
        (case read_seed w p of
           Inr quotes_data \<Rightarrow>
             (Some (JArr quotes_data),
              [PathExists p, Log INFO ''Found seed file at: %s'', OpenJson p,
               Log INFO ''Successfully loaded %d quotes from seed file''])
         | Inl e \<Rightarrow>
             (case seed_loop w ps of (r, t) \<Rightarrow>
                (r, [PathExists p, Log INFO ''Found seed file at: %s'', OpenJson p,
                     Log ERROR ''Failed to load from seed file %s: %s''] @ t)))
      else (case seed_loop w ps of (r, t) \<Rightarrow> (r, PathExists p # t)))"

definition load_from_seed_files :: "world \<Rightarrow> json option \<times> event list" where
  "load_from_seed_files w =
     (case seed_loop w (possible_paths w) of
        (Some quotes_data, t) \<Rightarrow> (Some quotes_data, t)
      | (None, t) \<Rightarrow>
          (None, t @ [Log ERROR ''No seed files found at any expected location'',
                      Log ERROR ''Tried paths: %s'']))"

section \<open>The resolver\<close>

text \<open>
  The two \<^verbatim>\<open>try\<close> blocks that decode a payload: \<^verbatim>\<open>json.loads\<close> of the decoded text,
  then \<^verbatim>\<open>len\<close> of the result for the log line.
\<close>

definition parse_payload :: "world \<Rightarrow> string \<Rightarrow> error + json" where
  "parse_payload w s =
     (case decode_json w s of
        None \<Rightarrow> Inl SourceFailure
      | Some quotes_data \<Rightarrow>
          (case py_len quotes_data of Inl e \<Rightarrow> Inl e | Inr n \<Rightarrow> Inr quotes_data))"

text \<open>Lines 61 to 78: the Key Vault step. \<open>None\<close> means that the step falls through.\<close>

definition key_vault_step ::
  "world \<Rightarrow> string \<Rightarrow> string \<Rightarrow> (json option) option \<times> event list" where
  "key_vault_step w environment key_vault_url =
     (let t = [Log INFO ''Loading quotes from Azure Key Vault (PII compliant)'',
               GetSecret key_vault_url ''quotes-data''];
          fetched = (case get_secret w key_vault_url ''quotes-data'' of
                       None \<Rightarrow> Inl SourceFailure
                     | Some v \<Rightarrow> parse_payload w v)
      in case fetched of
           Inr quotes_data \<Rightarrow>
             (Some (Some quotes_data),
              t @ [Log INFO ''Successfully loaded %d quotes from Azure Key Vault''])
         | Inl e \<Rightarrow>
             (if environment \<noteq> ''prod'' then
                (None, t @ [Log ERROR ''Failed to load quotes from Key Vault: %s'',
                            Log WARNING ''Falling back to seed files for demo functionality''])
              else
                (Some None, t @ [Log ERROR ''Failed to load quotes from Key Vault: %s'',
                                 Log ERROR ''Production fallback to seed files not allowed''])))"

text \<open>Lines 80 to 89: the last two steps.\<close>

definition dev_fallback :: "world \<Rightarrow> string \<Rightarrow> json option \<times> event list" where
  "dev_fallback w environment =
     (if environment \<in> set [''dev'', ''development'', ''demo''] then
        (case load_from_seed_files w of (r, t) \<Rightarrow>
           (r, [Log WARNING ''DEV ENVIRONMENT: Falling back to seed files'',
                Log WARNING ''For production: Set KEY_VAULT_URL and ENVIRONMENT=prod'',
                Log WARNING ''For demo: Set DEMO_MODE=true to acknowledge PII exception''] @ t))
      else
        (None, [Log ERROR ''No secure quotes data source configured for environment: %s'']))"

text \<open>Lines 60 to 89.\<close>

definition from_key_vault_on :: "world \<Rightarrow> string \<Rightarrow> json option \<times> event list" where
  "from_key_vault_on w environment =
     (if str_truthy (environ w ''KEY_VAULT_URL'') then
        (case key_vault_step w environment (the (environ w ''KEY_VAULT_URL'')) of
           (Some r, t) \<Rightarrow> (r, t)
         | (None, t) \<Rightarrow> (case dev_fallback w environment of (r, t') \<Rightarrow> (r, t @ t')))
      else dev_fallback w environment)"

text \<open>Lines 49 to 89.\<close>

definition from_env_on :: "world \<Rightarrow> string \<Rightarrow> json option \<times> event list" where
  "from_env_on w environment =
     (if str_truthy (environ w ''QUOTES_DATA_BASE64'') then
        (case parse_payload w (the (environ w ''QUOTES_DATA_BASE64'')) of
           Inr quotes_data \<Rightarrow>
             (Some quotes_data,
              [Log INFO ''Loading quotes from environment variable (local dev)'',
               Log INFO ''Successfully loaded %d quotes from environment variable''])
         | Inl e \<Rightarrow>
             (case from_key_vault_on w environment of (r, t) \<Rightarrow>
                (r, [Log INFO ''Loading quotes from environment variable (local dev)'',
                     Log ERROR ''Failed to load from environment variable: %s''] @ t)))
      else from_key_vault_on w environment)"

text \<open>The body of the outer \<^verbatim>\<open>try\<close> (lines 29 to 89); \<open>Inl\<close> is a raised exception.\<close>

definition load_quotes_body :: "world \<Rightarrow> (error + json option) \<times> event list" where
  "load_quotes_body w =
     (let demo_mode = (lower (environ_get w ''DEMO_MODE'' []) = ''true'');
          environment = lower (environ_get w ''ENVIRONMENT'' ''dev'');
          key_vault_url = environ w ''KEY_VAULT_URL'';
          t0 = [Log INFO ''Environment constraints - ENV: %s, DEMO_MODE: %s, KEY_VAULT_URL: %s, QUOTES_DATA_BASE64: %s'']
      in if environment = ''prod'' \<and> \<not> str_truthy key_vault_url then
           (Inl (PlainException ''Production environments must use Azure Key Vault for PII data''),
            t0 @ [Log ERROR ''PRODUCTION CONSTRAINT VIOLATION: KEY_VAULT_URL required for production''])
         else if demo_mode then
           (case load_from_seed_files w of (r, t) \<Rightarrow>
              (Inr r,
               t0 @ [Log WARNING ''DEMO MODE ENABLED: Using seed files (documented PII exception)'',
                     Log WARNING ''This violates PII security best practices - see docs/pii-compliance.md''] @ t))
         else
           (case from_env_on w environment of (r, t) \<Rightarrow> (Inr r, t0 @ t)))"

text \<open>The function with its handler \<^verbatim>\<open>except Exception\<close> (lines 91 to 93).\<close>

definition load_quotes_securely :: "world \<Rightarrow> (error + json option) \<times> event list" where
  "load_quotes_securely w =
     (case load_quotes_body w of
        (Inl e, t) \<Rightarrow> (Inr None, t @ [Log ERROR ''Failed to load quotes securely: %s''])
      | (Inr r, t) \<Rightarrow> (Inr r, t))"

section \<open>The database and its driver\<close>

text \<open>
  A row of \<^verbatim>\<open>dbo.quotes\<close> is the pair of parameters of its \<^verbatim>\<open>INSERT\<close>, in insertion
  order (the identity column is the position). The database is \<open>None\<close> while the
  table does not exist.
\<close>

type_synonym row = "json \<times> json"

type_synonym database = "row list option"

text \<open>
  The driver decides which calls raise. Closing a connection does not raise, and a
  connection closed without a commit leaves the database as it was.
\<close>

record driver =
  pyodbc_importable :: bool
  connect_ok :: "string \<Rightarrow> bool"
  cursor_ok :: bool
  ensure_table_ok :: bool
  count_ok :: bool
  insert_ok :: "row list \<Rightarrow> row \<Rightarrow> bool"
  commit_ok :: bool

definition load_pyodbc :: "driver \<Rightarrow> error + unit" where
  "load_pyodbc d =
     (if pyodbc_importable d then Inr ()
      else Inl (DBNotConfigured ''pyodbc not available in runtime''))"

definition connection_string_from_env :: "world \<Rightarrow> error + string" where
  "connection_string_from_env w =
     (let cs = str_or (environ w ''DATABASE_CONNECTION_STRING'') (environ w ''SQL_CONN_STR'');
          server = environ w ''SQL_SERVER'';
          database = environ w ''SQL_DATABASE'';
          username = environ w ''SQL_USER'';
          password = environ w ''SQL_PASSWORD''
      in if str_truthy cs then Inr (the cs)
         else if str_truthy server \<and> str_truthy database \<and> str_truthy username
                 \<and> str_truthy password then
           Inr (''Driver={ODBC Driver 18 for SQL Server};''
                @ ''Server=tcp:'' @ the server @ '',1433;Database='' @ the database @ '';''
                @ ''Uid='' @ the username @ '';Pwd='' @ the password
                @ '';Encrypt=yes;TrustServerCertificate=no;''
                @ ''Connection Timeout=30;'')
         else if lower (environ_get w ''AZURE_SQL_AUTH'' []) = ''managed_identity'' then
           Inl (DBNotConfigured ''Managed Identity auth not implemented yet. Provide connection string or SQL_USER/PASSWORD for dev.'')
         else Inl (DBNotConfigured ''Database connection not configured via env.''))"

definition get_db_connection :: "world \<Rightarrow> driver \<Rightarrow> (error + unit) \<times> event list" where
  "get_db_connection w d =
     (case load_pyodbc d of
        Inl e \<Rightarrow> (Inl e, [])
      | Inr _ \<Rightarrow>
          (case connection_string_from_env w of
             Inl e \<Rightarrow> (Inl e, [])
           | Inr conn_str \<Rightarrow>
               (if connect_ok d conn_str then Inr () else Inl (PyodbcError AtConnect),
                [Log INFO ''Connecting to Azure SQL over encrypted channel'',
                 Connect conn_str])))"

section \<open>The bootstrapper\<close>

definition ensure_table :: "driver \<Rightarrow> database \<Rightarrow> (error + unit) \<times> database \<times> event list" where
  "ensure_table d db =
     (if ensure_table_ok d then
        (Inr (), (case db of None \<Rightarrow> Some [] | Some rows \<Rightarrow> Some rows),
         [Execute CreateTableIfAbsent])
      else (Inl (PyodbcError AtEnsureTable), db, [Execute CreateTableIfAbsent]))"

text \<open>
  \<^verbatim>\<open>[(q.get("author", "Unknown"), q["text"]) for q in quotes_data if q.get("text")]\<close>
  on the items of \<open>quotes_data\<close>.
\<close>

fun seed_rows :: "json list \<Rightarrow> error + row list" where
  "seed_rows [] = Inr []"
| "seed_rows (q # qs) =
     (case py_get q ''text'' JNull of
        Inl e \<Rightarrow> Inl e
      | Inr t \<Rightarrow>
          (if truthy t then
             (case py_get q ''author'' (JStr ''Unknown'') of
                Inl e \<Rightarrow> Inl e
              | Inr author \<Rightarrow>
                  (case py_getitem q ''text'' of
                     Inl e \<Rightarrow> Inl e
                   | Inr text \<Rightarrow>
                       (case seed_rows qs of
                          Inl e \<Rightarrow> Inl e
                        | Inr rest \<Rightarrow> Inr ((author, text) # rest))))
           else seed_rows qs))"

text \<open>The \<^verbatim>\<open>for author, text in rows\<close> loop: one \<^verbatim>\<open>INSERT\<close> per row.\<close>

fun insert_rows ::
  "driver \<Rightarrow> row list \<Rightarrow> row list \<Rightarrow> (error + unit) \<times> row list \<times> event list" where
  "insert_rows d table [] = (Inr (), table, [])"
| "insert_rows d table (r # rs) =
     (if insert_ok d table r then
        (case insert_rows d (table @ [r]) rs of (res, table', t) \<Rightarrow>
           (res, table', Execute (InsertRow (fst r) (snd r)) # t))
      else (Inl (PyodbcError AtInsert), table, [Execute (InsertRow (fst r) (snd r))]))"

definition seed_if_empty ::
  "world \<Rightarrow> driver \<Rightarrow> database \<Rightarrow> (error + unit) \<times> database \<times> event list" where
  "seed_if_empty w d db =
     (case (if count_ok d then db else None) of
        None \<Rightarrow> (Inl (PyodbcError AtCount), db, [Execute CountRows])
      | Some table \<Rightarrow>
          (if int (length table) \<noteq> 0 \<and> int (length table) > 0 then
             (Inr (), db, [Execute CountRows, Fetchone])
           else
             (case load_quotes_securely w of
                (Inl e, t) \<Rightarrow> (Inl e, db, [Execute CountRows, Fetchone] @ t)
              | (Inr quotes_data, t) \<Rightarrow>
                  (if \<not> opt_truthy quotes_data then
                     (Inr (), db,
                      [Execute CountRows, Fetchone] @ t
                      @ [Log WARNING ''No quotes data available for seeding''])
                   else
                     (case (case py_iter (the quotes_data) of
                              Inl e \<Rightarrow> Inl e
                            | Inr items \<Rightarrow> seed_rows items) of
                        Inl e \<Rightarrow> (Inl e, db, [Execute CountRows, Fetchone] @ t)
                      | Inr rows \<Rightarrow>
                          (case insert_rows d table rows of
                             (Inl e, table', t') \<Rightarrow>
                               (Inl e, Some table', [Execute CountRows, Fetchone] @ t @ t')
                           | (Inr _, table', t') \<Rightarrow>
                               (Inr (), Some table',
                                [Execute CountRows, Fetchone] @ t @ t'
                                @ [Log INFO ''Database seeded with %d quotes (PII data loaded securely)''])))))))"

text \<open>
  The body of the second \<^verbatim>\<open>try\<close> of \<^verbatim>\<open>ensure_schema_and_seed\<close>: cursor, table, seed,
  commit. The database it returns is the uncommitted view of the connection.
\<close>

definition seed_session ::
  "world \<Rightarrow> driver \<Rightarrow> database \<Rightarrow> (error + unit) \<times> database \<times> event list" where
  "seed_session w d db =
     (if \<not> cursor_ok d then (Inl (PyodbcError AtCursor), db, [Cursor])
      else
        (case ensure_table d db of
           (Inl e, db1, t1) \<Rightarrow> (Inl e, db1, Cursor # t1)
         | (Inr _, db1, t1) \<Rightarrow>
             (case seed_if_empty w d db1 of
                (Inl e, db2, t2) \<Rightarrow> (Inl e, db2, Cursor # t1 @ t2)
              | (Inr _, db2, t2) \<Rightarrow>
                  (if commit_ok d then (Inr (), db2, Cursor # t1 @ t2 @ [Commit])
                   else (Inl (PyodbcError AtCommit), db2, Cursor # t1 @ t2 @ [Commit])))))"

text \<open>
  The result is the outcome (\<open>Inl\<close> a propagated exception), the committed database
  afterwards and the effects in order.
\<close>

definition ensure_schema_and_seed ::
  "world \<Rightarrow> driver \<Rightarrow> database \<Rightarrow> (error + unit) \<times> database \<times> event list" where
  "ensure_schema_and_seed w d db =
     (case get_db_connection w d of
        (Inl (DBNotConfigured m), t) \<Rightarrow>
          (Inr (), db, t @ [Log INFO ''Database not configured yet; skipping schema/seed.''])
      | (Inl e, t) \<Rightarrow> (Inl e, db, t)
      | (Inr _, t) \<Rightarrow>
          (case seed_session w d db of
             (Inr _, db', t') \<Rightarrow> (Inr (), db', t @ t' @ [Close])
           | (Inl e, db', t') \<Rightarrow> (Inl e, db, t @ t' @ [Close])))"

section \<open>Example environments\<close>

text \<open>
  A container in which only \<^verbatim>\<open>/app/database/seed/quotes.json\<close> exists. The file
  holds one documentation object and three quotes, the last with an empty marker.
  No secret can be fetched. Three inline payloads decode: the base64 texts of
  \<^verbatim>\<open>[{"text": "inline"}]\<close>, of
  \<^verbatim>\<open>[{"author": "A"}, {"author": "B", "text": "t"}]\<close> and of \<^verbatim>\<open>{"a": 1}\<close>.
\<close>

definition sample_seed :: json where
  "sample_seed =
     JArr [JObj [(''_comment'', JStr ''documentation'')],
           JObj [(''author'', JStr ''Ada''), (''text'', JStr ''one'')],
           JObj [(''text'', JStr ''two'')],
           JObj [(''author'', JStr ''Bob''), (''text'', JStr ''three''), (''_comment'', JStr [])]]"

definition example_world :: "(string \<times> string) list \<Rightarrow> world" where
  "example_world env =
     \<lparr>environ = map_of env,
      decode_json = map_of
        [(''W3sidGV4dCI6ICJpbmxpbmUifV0='', JArr [JObj [(''text'', JStr ''inline'')]]),
         (''W3siYXV0aG9yIjogIkEifSwgeyJhdXRob3IiOiAiQiIsICJ0ZXh0IjogInQifV0='',
          JArr [JObj [(''author'', JStr ''A'')],
                JObj [(''author'', JStr ''B''), (''text'', JStr ''t'')]]),
         (''eyJhIjogMX0='', JObj [(''a'', JInt 1)])],
      get_secret = (\<lambda>url name. None),
      package_root = ''/srv'',
      path_exists = (\<lambda>p. p = ''/app/database/seed/quotes.json''),
      load_file = map_of [(''/app/database/seed/quotes.json'', sample_seed)]\<rparr>"

section \<open>Notions used in the statements\<close>

text \<open>The first logger call of the resolver, made on every invocation (line 35).\<close>

abbreviation (input) entry_log :: event where
  "entry_log \<equiv> Log INFO ''Environment constraints - ENV: %s, DEMO_MODE: %s, KEY_VAULT_URL: %s, QUOTES_DATA_BASE64: %s''"

text \<open>
  A source that is configured but unusable falls through. The inline payload is
  unusable when \<^verbatim>\<open>QUOTES_DATA_BASE64\<close> is absent or empty, or when its \<^verbatim>\<open>try\<close> raises;
  the Key Vault is unusable when \<^verbatim>\<open>KEY_VAULT_URL\<close> is absent or empty, or when its
  \<^verbatim>\<open>try\<close> raises. The two logs are what a source that was tried and failed leaves
  behind outside \<^verbatim>\<open>prod\<close>.
\<close>

definition inline_unusable :: "world \<Rightarrow> bool" where
  "inline_unusable w =
     (\<not> str_truthy (environ w ''QUOTES_DATA_BASE64'')
      \<or> isl (parse_payload w (the (environ w ''QUOTES_DATA_BASE64''))))"

definition key_vault_unusable :: "world \<Rightarrow> bool" where
  "key_vault_unusable w =
     (\<not> str_truthy (environ w ''KEY_VAULT_URL'')
      \<or> (case get_secret w (the (environ w ''KEY_VAULT_URL'')) ''quotes-data'' of
            None \<Rightarrow> True
          | Some v \<Rightarrow> isl (parse_payload w v)))"

definition inline_failure_log :: "world \<Rightarrow> event list" where
  "inline_failure_log w =
     (if str_truthy (environ w ''QUOTES_DATA_BASE64'') then
        [Log INFO ''Loading quotes from environment variable (local dev)'',
         Log ERROR ''Failed to load from environment variable: %s'']
      else [])"

definition key_vault_failure_log :: "world \<Rightarrow> event list" where
  "key_vault_failure_log w =
     (if str_truthy (environ w ''KEY_VAULT_URL'') then
        [Log INFO ''Loading quotes from Azure Key Vault (PII compliant)'',
         GetSecret (the (environ w ''KEY_VAULT_URL'')) ''quotes-data'',
         Log ERROR ''Failed to load quotes from Key Vault: %s'',
         Log WARNING ''Falling back to seed files for demo functionality'']
      else [])"

text \<open>
  A list, or \<^verbatim>\<open>None\<close>; and the environments in which every payload that decodes,
  decodes to a JSON array.
\<close>

fun list_or_none :: "json option \<Rightarrow> bool" where
  "list_or_none None = True"
| "list_or_none (Some (JArr xs)) = True"
| "list_or_none (Some _) = False"

definition array_sources :: "world \<Rightarrow> bool" where
  "array_sources w = (\<forall>s v. decode_json w s = Some v \<longrightarrow> list_or_none (Some v))"


fun is_object :: "json \<Rightarrow> bool" where
  "is_object (JObj kvs) = True"
| "is_object _ = False"


text \<open>A driver with which every call succeeds.\<close>

definition example_driver :: driver where
  "example_driver =
     \<lparr>pyodbc_importable = True,
      connect_ok = (\<lambda>conn_str. True),
      cursor_ok = True,
      ensure_table_ok = True,
      count_ok = True,
      insert_ok = (\<lambda>table r. True),
      commit_ok = True\<rparr>"

text \<open>The number of rows that \<^verbatim>\<open>SELECT COUNT(1)\<close> reports; no table, no rows.\<close>

fun row_count :: "database \<Rightarrow> nat" where
  "row_count None = 0"
| "row_count (Some table) = length table"

text \<open>The committed database after a call of the bootstrapper, and the effects of the call.\<close>

definition database_after :: "world \<Rightarrow> driver \<Rightarrow> database \<Rightarrow> database" where
  "database_after w d db = fst (snd (ensure_schema_and_seed w d db))"

definition effects_of :: "world \<Rightarrow> driver \<Rightarrow> database \<Rightarrow> event list" where
  "effects_of w d db = snd (snd (ensure_schema_and_seed w d db))"

text \<open>
  The row that the specification asks for an entry: none unless the entry is an
  object whose \<^verbatim>\<open>text\<close> is present and truthy, else the author, or \<^verbatim>\<open>Unknown\<close> when the
  entry has none, with the text.
\<close>

fun spec_row :: "json \<Rightarrow> row option" where
  "spec_row (JObj kvs) =
     (case map_of kvs ''text'' of
        None \<Rightarrow> None
      | Some text \<Rightarrow>
          (if truthy text then
             Some (case map_of kvs ''author'' of None \<Rightarrow> JStr ''Unknown'' | Some a \<Rightarrow> a, text)
           else None))"
| "spec_row _ = None"

text \<open>The calls that reach the database driver.\<close>

fun db_call :: "event \<Rightarrow> bool" where
  "db_call (Connect conn_str) = True"
| "db_call Cursor = True"
| "db_call (Execute st) = True"
| "db_call Fetchone = True"
| "db_call Commit = True"
| "db_call Close = True"
| "db_call _ = False"

text \<open>
  The bootstrapper raises \<open>e\<close> to its caller with the connection released: the last
  effect is \<open>Close\<close>, it happens once, and nothing has been committed.
\<close>

definition propagates_after_close :: "world \<Rightarrow> driver \<Rightarrow> database \<Rightarrow> error \<Rightarrow> bool" where
  "propagates_after_close w d db e =
     (case ensure_schema_and_seed w d db of (res, db', t) \<Rightarrow>
        res = Inl e \<and> db' = db \<and> t \<noteq> [] \<and> last t = Close \<and> Close \<notin> set (butlast t))"

section \<open>Evaluating the examples\<close>

lemmas example_simps = example_world_def sample_seed_def lower_def lower_char_def environ_get_def

lemma example_seed:
  "load_from_seed_files (example_world env) =
     (Some (JArr [JObj [(''author'', JStr ''Ada''), (''text'', JStr ''one'')],
                  JObj [(''text'', JStr ''two'')],
                  JObj [(''author'', JStr ''Bob''), (''text'', JStr ''three''), (''_comment'', JStr [])]]),
      [PathExists ''/srv/database/seed/quotes.json'',
       PathExists ''/app/database/seed/quotes.json'',
       Log INFO ''Found seed file at: %s'',
       OpenJson ''/app/database/seed/quotes.json'',
       Log INFO ''Successfully loaded %d quotes from seed file''])"
  by (simp add: load_from_seed_files_def possible_paths_def read_seed_def example_simps)

section \<open>The resolver: precedence of the sources\<close>

text \<open>
  Claim C1. When the tier (\<^verbatim>\<open>ENVIRONMENT\<close>, compared in lower case) is \<^verbatim>\<open>prod\<close> and
  \<^verbatim>\<open>KEY_VAULT_URL\<close> is absent or empty, the resolver returns \<^verbatim>\<open>None\<close> whatever the
  other inputs are, the demo-mode flag and an inline payload included. Its effects
  are three logger calls: no seed path is probed, no file opened, no secret fetched.
\<close>

theorem prod_without_key_vault_unavailable:
  assumes "lower (environ_get w ''ENVIRONMENT'' ''dev'') = ''prod''"
    and "\<not> str_truthy (environ w ''KEY_VAULT_URL'')"
  shows "load_quotes_securely w =
     (Inr None,
      [entry_log,
       Log ERROR ''PRODUCTION CONSTRAINT VIOLATION: KEY_VAULT_URL required for production'',
       Log ERROR ''Failed to load quotes securely: %s''])"
  using assms by (simp add: load_quotes_securely_def load_quotes_body_def)

theorem prod_without_key_vault_unavailable_witness:
  "lower (environ_get (example_world [(''ENVIRONMENT'', ''PROD''), (''DEMO_MODE'', ''true''),
       (''QUOTES_DATA_BASE64'', ''W3sidGV4dCI6ICJpbmxpbmUifV0='')]) ''ENVIRONMENT'' ''dev'') = ''prod''
   \<and> \<not> str_truthy (environ (example_world [(''ENVIRONMENT'', ''PROD''), (''DEMO_MODE'', ''true''),
       (''QUOTES_DATA_BASE64'', ''W3sidGV4dCI6ICJpbmxpbmUifV0='')]) ''KEY_VAULT_URL'')
   \<and> load_quotes_securely (example_world [(''ENVIRONMENT'', ''PROD''), (''DEMO_MODE'', ''true''),
       (''QUOTES_DATA_BASE64'', ''W3sidGV4dCI6ICJpbmxpbmUifV0='')]) =
     (Inr None,
      [entry_log,
       Log ERROR ''PRODUCTION CONSTRAINT VIOLATION: KEY_VAULT_URL required for production'',
       Log ERROR ''Failed to load quotes securely: %s''])"
proof -
  let ?w = "example_world [(''ENVIRONMENT'', ''PROD''), (''DEMO_MODE'', ''true''),
       (''QUOTES_DATA_BASE64'', ''W3sidGV4dCI6ICJpbmxpbmUifV0='')]"
  have tier: "lower (environ_get ?w ''ENVIRONMENT'' ''dev'') = ''prod''"
    by (simp add: example_simps)
  have vault: "\<not> str_truthy (environ ?w ''KEY_VAULT_URL'')"
    by (simp add: example_simps)
  from tier vault prod_without_key_vault_unavailable [OF tier vault] show ?thesis
    by blast
qed

text \<open>
  Claim C2 says that demo mode returns seed data in every environment state, also
  in \<^verbatim>\<open>prod\<close> without a Key Vault URL. The production check of line 39 comes first:
  with \<^verbatim>\<open>DEMO_MODE=true\<close>, \<^verbatim>\<open>ENVIRONMENT=prod\<close>, no \<^verbatim>\<open>KEY_VAULT_URL\<close> and a seed file
  that loads, the resolver returns \<^verbatim>\<open>None\<close>.
\<close>

theorem demo_mode_prod_counterexample:
  "lower (environ_get (example_world [(''ENVIRONMENT'', ''prod''), (''DEMO_MODE'', ''true'')]) ''DEMO_MODE'' []) = ''true''
   \<and> fst (load_from_seed_files (example_world [(''ENVIRONMENT'', ''prod''), (''DEMO_MODE'', ''true'')])) \<noteq> None
   \<and> fst (load_quotes_securely (example_world [(''ENVIRONMENT'', ''prod''), (''DEMO_MODE'', ''true'')])) = Inr None"
  by (simp add: example_seed)
    (simp add: load_quotes_securely_def load_quotes_body_def example_simps)

text \<open>
  Claim C2, amended. When the demo-mode flag is set (\<^verbatim>\<open>DEMO_MODE\<close> is \<^verbatim>\<open>true\<close> in lower
  case) and the state is not \<^verbatim>\<open>prod\<close> without a Key Vault URL, the resolver returns
  what the seed-file loader returns, after two warnings, and consults nothing else;
  this holds in \<^verbatim>\<open>prod\<close> when a Key Vault URL is set.
\<close>

theorem demo_mode_returns_seed_files:
  assumes "lower (environ_get w ''DEMO_MODE'' []) = ''true''"
    and "\<not> (lower (environ_get w ''ENVIRONMENT'' ''dev'') = ''prod''
            \<and> \<not> str_truthy (environ w ''KEY_VAULT_URL''))"
  shows "load_quotes_securely w =
     (Inr (fst (load_from_seed_files w)),
      [entry_log,
       Log WARNING ''DEMO MODE ENABLED: Using seed files (documented PII exception)'',
       Log WARNING ''This violates PII security best practices - see docs/pii-compliance.md'']
      @ snd (load_from_seed_files w))"
  using assms
  by (simp add: load_quotes_securely_def load_quotes_body_def Let_def case_prod_beta)

theorem demo_mode_returns_seed_files_witness:
  "lower (environ_get (example_world [(''ENVIRONMENT'', ''prod''), (''DEMO_MODE'', ''True''),
       (''KEY_VAULT_URL'', ''https://kv.example'')]) ''DEMO_MODE'' []) = ''true''
   \<and> \<not> (lower (environ_get (example_world [(''ENVIRONMENT'', ''prod''), (''DEMO_MODE'', ''True''),
       (''KEY_VAULT_URL'', ''https://kv.example'')]) ''ENVIRONMENT'' ''dev'') = ''prod''
       \<and> \<not> str_truthy (environ (example_world [(''ENVIRONMENT'', ''prod''), (''DEMO_MODE'', ''True''),
       (''KEY_VAULT_URL'', ''https://kv.example'')]) ''KEY_VAULT_URL''))
   \<and> fst (load_quotes_securely (example_world [(''ENVIRONMENT'', ''prod''), (''DEMO_MODE'', ''True''),
       (''KEY_VAULT_URL'', ''https://kv.example'')])) =
     Inr (Some (JArr [JObj [(''author'', JStr ''Ada''), (''text'', JStr ''one'')],
                  JObj [(''text'', JStr ''two'')],
                  JObj [(''author'', JStr ''Bob''), (''text'', JStr ''three''), (''_comment'', JStr [])]]))"
proof -
  let ?w = "example_world [(''ENVIRONMENT'', ''prod''), (''DEMO_MODE'', ''True''),
       (''KEY_VAULT_URL'', ''https://kv.example'')]"
  have demo: "lower (environ_get ?w ''DEMO_MODE'' []) = ''true''"
    by (simp add: example_simps)
  have vault: "\<not> (lower (environ_get ?w ''ENVIRONMENT'' ''dev'') = ''prod''
       \<and> \<not> str_truthy (environ ?w ''KEY_VAULT_URL''))"
    by (simp add: example_simps)
  show ?thesis
    using demo vault demo_mode_returns_seed_files [OF demo vault]
    by (simp add: example_seed)
qed

text \<open>
  Claim C3 at \<^verbatim>\<open>ENVIRONMENT=staging\<close> with a Key Vault URL whose secret cannot be
  fetched, in a container whose seed file loads three quotes: the resolver logs that
  it falls back to seed files, then finds \<^verbatim>\<open>staging\<close> outside the list of line 81 and
  returns \<^verbatim>\<open>None\<close> without probing a seed path.
\<close>

theorem staging_key_vault_failure_returns_none:
  "load_quotes_securely (example_world [(''ENVIRONMENT'', ''staging''),
       (''KEY_VAULT_URL'', ''https://kv.example'')]) =
     (Inr None,
      [entry_log,
       Log INFO ''Loading quotes from Azure Key Vault (PII compliant)'',
       GetSecret ''https://kv.example'' ''quotes-data'',
       Log ERROR ''Failed to load quotes from Key Vault: %s'',
       Log WARNING ''Falling back to seed files for demo functionality'',
       Log ERROR ''No secure quotes data source configured for environment: %s''])
   \<and> fst (load_from_seed_files (example_world [(''ENVIRONMENT'', ''staging''),
       (''KEY_VAULT_URL'', ''https://kv.example'')])) =
     Some (JArr [JObj [(''author'', JStr ''Ada''), (''text'', JStr ''one'')],
                  JObj [(''text'', JStr ''two'')],
                  JObj [(''author'', JStr ''Bob''), (''text'', JStr ''three''), (''_comment'', JStr [])]])"
  by (simp add: example_seed)
    (simp add: load_quotes_securely_def load_quotes_body_def from_env_on_def
      from_key_vault_on_def key_vault_step_def dev_fallback_def example_simps)

section \<open>The resolver: falling through to the last steps\<close>

lemmas resolver_defs = load_quotes_securely_def load_quotes_body_def from_env_on_def
  from_key_vault_on_def key_vault_step_def dev_fallback_def

lemma from_key_vault_on_unusable:
  assumes "key_vault_unusable w"
  shows "from_key_vault_on w e =
     (if \<not> str_truthy (environ w ''KEY_VAULT_URL'') then dev_fallback w e
      else if e \<noteq> ''prod'' then
        (fst (dev_fallback w e),
         [Log INFO ''Loading quotes from Azure Key Vault (PII compliant)'',
          GetSecret (the (environ w ''KEY_VAULT_URL'')) ''quotes-data'',
          Log ERROR ''Failed to load quotes from Key Vault: %s'',
          Log WARNING ''Falling back to seed files for demo functionality'']
         @ snd (dev_fallback w e))
      else
        (None,
         [Log INFO ''Loading quotes from Azure Key Vault (PII compliant)'',
          GetSecret (the (environ w ''KEY_VAULT_URL'')) ''quotes-data'',
          Log ERROR ''Failed to load quotes from Key Vault: %s'',
          Log ERROR ''Production fallback to seed files not allowed'']))"
  using assms
  by (auto simp add: key_vault_unusable_def from_key_vault_on_def key_vault_step_def Let_def
      case_prod_beta split: option.splits sum.splits)

lemma from_env_on_unusable:
  assumes "inline_unusable w"
  shows "from_env_on w e =
     (if str_truthy (environ w ''QUOTES_DATA_BASE64'') then
        (fst (from_key_vault_on w e),
         [Log INFO ''Loading quotes from environment variable (local dev)'',
          Log ERROR ''Failed to load from environment variable: %s'']
         @ snd (from_key_vault_on w e))
      else from_key_vault_on w e)"
  using assms
  by (auto simp add: inline_unusable_def from_env_on_def case_prod_beta split: sum.splits)

lemma dev_fallback_dev:
  assumes "e \<in> {''dev'', ''development'', ''demo''}"
  shows "dev_fallback w e =
     (fst (load_from_seed_files w),
      [Log WARNING ''DEV ENVIRONMENT: Falling back to seed files'',
       Log WARNING ''For production: Set KEY_VAULT_URL and ENVIRONMENT=prod'',
       Log WARNING ''For demo: Set DEMO_MODE=true to acknowledge PII exception'']
      @ snd (load_from_seed_files w))"
  using assms by (simp add: dev_fallback_def case_prod_beta)

lemma dev_fallback_other:
  assumes "e \<notin> {''dev'', ''development'', ''demo''}"
  shows "dev_fallback w e =
     (None, [Log ERROR ''No secure quotes data source configured for environment: %s''])"
  using assms by (simp add: dev_fallback_def)

lemma load_quotes_securely_fallthrough:
  assumes "lower (environ_get w ''DEMO_MODE'' []) \<noteq> ''true''"
    and "\<not> (lower (environ_get w ''ENVIRONMENT'' ''dev'') = ''prod''
            \<and> \<not> str_truthy (environ w ''KEY_VAULT_URL''))"
  shows "load_quotes_securely w =
     (Inr (fst (from_env_on w (lower (environ_get w ''ENVIRONMENT'' ''dev'')))),
      entry_log # snd (from_env_on w (lower (environ_get w ''ENVIRONMENT'' ''dev''))))"
proof -
  have "(lower (environ_get w ''ENVIRONMENT'' ''dev'') = ''prod''
            \<and> \<not> str_truthy (environ w ''KEY_VAULT_URL'')) = False"
    using assms(2) by (rule eq_False [THEN iffD2])
  then show ?thesis
    using assms(1)
    by (simp only: load_quotes_securely_def load_quotes_body_def Let_def if_False)
      (simp add: case_prod_beta)
qed

lemma dev_not_prod: "e \<in> {''dev'', ''development'', ''demo''} \<Longrightarrow> e \<noteq> ''prod''"
  by auto



lemma fallthrough_dev:
  assumes demo: "lower (environ_get w ''DEMO_MODE'' []) \<noteq> ''true''"
    and inline: "inline_unusable w"
    and vault: "key_vault_unusable w"
    and dev: "lower (environ_get w ''ENVIRONMENT'' ''dev'') \<in> {''dev'', ''development'', ''demo''}"
  shows "load_quotes_securely w =
     (Inr (fst (load_from_seed_files w)),
      entry_log # inline_failure_log w @ key_vault_failure_log w
      @ [Log WARNING ''DEV ENVIRONMENT: Falling back to seed files'',
         Log WARNING ''For production: Set KEY_VAULT_URL and ENVIRONMENT=prod'',
         Log WARNING ''For demo: Set DEMO_MODE=true to acknowledge PII exception'']
      @ snd (load_from_seed_files w))"
proof -
  from dev have np: "lower (environ_get w ''ENVIRONMENT'' ''dev'') \<noteq> ''prod''"
    by (rule dev_not_prod)
  then have "\<not> (lower (environ_get w ''ENVIRONMENT'' ''dev'') = ''prod''
            \<and> \<not> str_truthy (environ w ''KEY_VAULT_URL''))"
    by simp
  note through = load_quotes_securely_fallthrough [OF demo this]
  show ?thesis
    using np
    by (simp add: through from_env_on_unusable [OF inline]
        from_key_vault_on_unusable [OF vault] dev_fallback_dev [OF dev]
        inline_failure_log_def key_vault_failure_log_def)
qed

lemma fallthrough_other:
  assumes demo: "lower (environ_get w ''DEMO_MODE'' []) \<noteq> ''true''"
    and inline: "inline_unusable w"
    and vault: "key_vault_unusable w"
    and other: "lower (environ_get w ''ENVIRONMENT'' ''dev'') \<notin> {''dev'', ''development'', ''demo''}"
  shows "fst (load_quotes_securely w) = Inr None
     \<and> (\<forall>p. PathExists p \<notin> set (snd (load_quotes_securely w))
            \<and> OpenJson p \<notin> set (snd (load_quotes_securely w)))"
proof (cases "lower (environ_get w ''ENVIRONMENT'' ''dev'') = ''prod''
            \<and> \<not> str_truthy (environ w ''KEY_VAULT_URL'')")
  case True
  then show ?thesis by (simp add: load_quotes_securely_def load_quotes_body_def)
next
  case False
  show ?thesis
    using False
    by (simp add: load_quotes_securely_fallthrough [OF demo False]
        from_env_on_unusable [OF inline]
        from_key_vault_on_unusable [OF vault] dev_fallback_other [OF other])
qed

text \<open>
  Claim C4 says that a tier outside the recognised literals is treated as
  non-production and served from seed files. At \<^verbatim>\<open>ENVIRONMENT=foo\<close>, with no other
  variable set and a seed file that loads, the resolver returns \<^verbatim>\<open>None\<close>: line 81
  admits \<^verbatim>\<open>dev\<close>, \<^verbatim>\<open>development\<close> and \<^verbatim>\<open>demo\<close> only.
\<close>

theorem unrecognised_tier_counterexample:
  "lower (environ_get (example_world [(''ENVIRONMENT'', ''foo'')]) ''ENVIRONMENT'' ''dev'') = ''foo''
   \<and> fst (load_from_seed_files (example_world [(''ENVIRONMENT'', ''foo'')])) \<noteq> None
   \<and> fst (load_quotes_securely (example_world [(''ENVIRONMENT'', ''foo'')])) = Inr None"
  by (simp add: example_seed) (simp add: resolver_defs example_simps)

text \<open>
  Claim C4, amended. Let demo mode be off and the inline payload unusable. When the
  tier in lower case is \<^verbatim>\<open>dev\<close>, \<^verbatim>\<open>development\<close> or \<^verbatim>\<open>demo\<close> (an absent
  \<^verbatim>\<open>ENVIRONMENT\<close> reads as \<^verbatim>\<open>dev\<close>) and the Key Vault is unusable, the resolver loads
  the seed files, after the three fallback warnings. For every other tier, with no
  Key Vault URL set, it returns \<^verbatim>\<open>None\<close> and neither probes nor opens a seed path.
\<close>

theorem seed_fallback_only_for_dev_tiers:
  assumes "lower (environ_get w ''DEMO_MODE'' []) \<noteq> ''true''"
    and "inline_unusable w"
  shows "(lower (environ_get w ''ENVIRONMENT'' ''dev'') \<in> {''dev'', ''development'', ''demo''}
          \<and> key_vault_unusable w \<longrightarrow>
            load_quotes_securely w =
              (Inr (fst (load_from_seed_files w)),
               entry_log # inline_failure_log w @ key_vault_failure_log w
               @ [Log WARNING ''DEV ENVIRONMENT: Falling back to seed files'',
                  Log WARNING ''For production: Set KEY_VAULT_URL and ENVIRONMENT=prod'',
                  Log WARNING ''For demo: Set DEMO_MODE=true to acknowledge PII exception'']
               @ snd (load_from_seed_files w)))
       \<and> (lower (environ_get w ''ENVIRONMENT'' ''dev'') \<notin> {''dev'', ''development'', ''demo''}
          \<and> \<not> str_truthy (environ w ''KEY_VAULT_URL'') \<longrightarrow>
            fst (load_quotes_securely w) = Inr None
            \<and> (\<forall>p. PathExists p \<notin> set (snd (load_quotes_securely w))
                  \<and> OpenJson p \<notin> set (snd (load_quotes_securely w))))"
proof (rule conjI; rule impI)
  assume "lower (environ_get w ''ENVIRONMENT'' ''dev'') \<in> {''dev'', ''development'', ''demo''}
          \<and> key_vault_unusable w"
  then have dev: "lower (environ_get w ''ENVIRONMENT'' ''dev'') \<in> {''dev'', ''development'', ''demo''}"
    and vault: "key_vault_unusable w"
    by (rule conjunct1, rule conjunct2)
  from assms vault dev show "load_quotes_securely w =
              (Inr (fst (load_from_seed_files w)),
               entry_log # inline_failure_log w @ key_vault_failure_log w
               @ [Log WARNING ''DEV ENVIRONMENT: Falling back to seed files'',
                  Log WARNING ''For production: Set KEY_VAULT_URL and ENVIRONMENT=prod'',
                  Log WARNING ''For demo: Set DEMO_MODE=true to acknowledge PII exception'']
               @ snd (load_from_seed_files w))"
    by (rule fallthrough_dev)
next
  assume "lower (environ_get w ''ENVIRONMENT'' ''dev'') \<notin> {''dev'', ''development'', ''demo''}
          \<and> \<not> str_truthy (environ w ''KEY_VAULT_URL'')"
  then have other: "lower (environ_get w ''ENVIRONMENT'' ''dev'') \<notin> {''dev'', ''development'', ''demo''}"
    and unset: "\<not> str_truthy (environ w ''KEY_VAULT_URL'')"
    by (rule conjunct1, rule conjunct2)
  from unset have vault: "key_vault_unusable w"
    by (simp add: key_vault_unusable_def)
  from assms vault other show "fst (load_quotes_securely w) = Inr None
            \<and> (\<forall>p. PathExists p \<notin> set (snd (load_quotes_securely w))
                  \<and> OpenJson p \<notin> set (snd (load_quotes_securely w)))"
    by (rule fallthrough_other)
qed

theorem seed_fallback_only_for_dev_tiers_witness:
  "lower (environ_get (example_world [(''ENVIRONMENT'', ''Development''),
       (''KEY_VAULT_URL'', ''https://kv.example'')]) ''DEMO_MODE'' []) \<noteq> ''true''
   \<and> inline_unusable (example_world [(''ENVIRONMENT'', ''Development''),
       (''KEY_VAULT_URL'', ''https://kv.example'')])
   \<and> key_vault_unusable (example_world [(''ENVIRONMENT'', ''Development''),
       (''KEY_VAULT_URL'', ''https://kv.example'')])
   \<and> lower (environ_get (example_world [(''ENVIRONMENT'', ''Development''),
       (''KEY_VAULT_URL'', ''https://kv.example'')]) ''ENVIRONMENT'' ''dev'')
       \<in> {''dev'', ''development'', ''demo''}
   \<and> fst (load_quotes_securely (example_world [(''ENVIRONMENT'', ''Development''),
       (''KEY_VAULT_URL'', ''https://kv.example'')])) =
     Inr (Some (JArr [JObj [(''author'', JStr ''Ada''), (''text'', JStr ''one'')],
                  JObj [(''text'', JStr ''two'')],
                  JObj [(''author'', JStr ''Bob''), (''text'', JStr ''three''), (''_comment'', JStr [])]]))
   \<and> lower (environ_get (example_world [(''ENVIRONMENT'', ''foo'')]) ''DEMO_MODE'' []) \<noteq> ''true''
   \<and> inline_unusable (example_world [(''ENVIRONMENT'', ''foo'')])
   \<and> \<not> str_truthy (environ (example_world [(''ENVIRONMENT'', ''foo'')]) ''KEY_VAULT_URL'')
   \<and> lower (environ_get (example_world [(''ENVIRONMENT'', ''foo'')]) ''ENVIRONMENT'' ''dev'')
       \<notin> {''dev'', ''development'', ''demo''}
   \<and> fst (load_quotes_securely (example_world [(''ENVIRONMENT'', ''foo'')])) = Inr None"
proof -
  let ?w = "example_world [(''ENVIRONMENT'', ''Development''),
       (''KEY_VAULT_URL'', ''https://kv.example'')]"
  let ?v = "example_world [(''ENVIRONMENT'', ''foo'')]"
  have w1: "lower (environ_get ?w ''DEMO_MODE'' []) \<noteq> ''true''"
    by (simp add: example_simps)
  have w2: "inline_unusable ?w"
    by (simp add: inline_unusable_def example_simps)
  have w3: "key_vault_unusable ?w"
    by (simp add: key_vault_unusable_def example_simps)
  have w4: "lower (environ_get ?w ''ENVIRONMENT'' ''dev'') \<in> {''dev'', ''development'', ''demo''}"
    by (simp add: example_simps)
  have v1: "lower (environ_get ?v ''DEMO_MODE'' []) \<noteq> ''true''"
    by (simp add: example_simps)
  have v2: "inline_unusable ?v"
    by (simp add: inline_unusable_def example_simps)
  have v3: "\<not> str_truthy (environ ?v ''KEY_VAULT_URL'')"
    by (simp add: example_simps)
  have v4: "lower (environ_get ?v ''ENVIRONMENT'' ''dev'') \<notin> {''dev'', ''development'', ''demo''}"
    by (simp add: example_simps)
  have a: "fst (load_quotes_securely ?w) = Inr (fst (load_from_seed_files ?w))"
    by (simp only: seed_fallback_only_for_dev_tiers [OF w1 w2, THEN conjunct1, THEN mp,
          OF conjI [OF w4 w3]] fst_conv)
  have b: "fst (load_quotes_securely ?v) = Inr None"
    by (rule seed_fallback_only_for_dev_tiers [OF v1 v2, THEN conjunct2, THEN mp,
          OF conjI [OF v4 v3], THEN conjunct1])
  show ?thesis
    using w1 w2 w3 w4 v1 v2 v3 v4 a b by (simp only: example_seed fst_conv simp_thms)
qed

section \<open>The resolver: the inline payload in production\<close>

text \<open>
  Claim C9 says that in \<^verbatim>\<open>prod\<close>, with a Key Vault URL and a valid inline payload,
  the resolver returns the payload. With \<^verbatim>\<open>DEMO_MODE=true\<close> added, line 44 returns the
  seed files before the payload is looked at.
\<close>

theorem prod_inline_demo_counterexample:
  "lower (environ_get (example_world [(''ENVIRONMENT'', ''prod''),
       (''KEY_VAULT_URL'', ''https://kv.example''),
       (''QUOTES_DATA_BASE64'', ''W3sidGV4dCI6ICJpbmxpbmUifV0=''),
       (''DEMO_MODE'', ''true'')]) ''ENVIRONMENT'' ''dev'') = ''prod''
   \<and> str_truthy (environ (example_world [(''ENVIRONMENT'', ''prod''),
       (''KEY_VAULT_URL'', ''https://kv.example''),
       (''QUOTES_DATA_BASE64'', ''W3sidGV4dCI6ICJpbmxpbmUifV0=''),
       (''DEMO_MODE'', ''true'')]) ''KEY_VAULT_URL'')
   \<and> decode_json (example_world [(''ENVIRONMENT'', ''prod''),
       (''KEY_VAULT_URL'', ''https://kv.example''),
       (''QUOTES_DATA_BASE64'', ''W3sidGV4dCI6ICJpbmxpbmUifV0=''),
       (''DEMO_MODE'', ''true'')]) ''W3sidGV4dCI6ICJpbmxpbmUifV0=''
       = Some (JArr [JObj [(''text'', JStr ''inline'')]])
   \<and> fst (load_quotes_securely (example_world [(''ENVIRONMENT'', ''prod''),
       (''KEY_VAULT_URL'', ''https://kv.example''),
       (''QUOTES_DATA_BASE64'', ''W3sidGV4dCI6ICJpbmxpbmUifV0=''),
       (''DEMO_MODE'', ''true'')]))
       \<noteq> Inr (Some (JArr [JObj [(''text'', JStr ''inline'')]]))"
  by (simp add: load_quotes_securely_def load_quotes_body_def example_seed Let_def)
    (simp add: example_simps)

text \<open>
  Claim C9, amended. In \<^verbatim>\<open>prod\<close> with a Key Vault URL, demo mode off and an inline
  payload that decodes to a JSON array, the resolver returns that array. Its effects
  are three logger calls: the secret store is never contacted.
\<close>

theorem prod_inline_payload_bypasses_key_vault:
  assumes "lower (environ_get w ''ENVIRONMENT'' ''dev'') = ''prod''"
    and "str_truthy (environ w ''KEY_VAULT_URL'')"
    and "lower (environ_get w ''DEMO_MODE'' []) \<noteq> ''true''"
    and "environ w ''QUOTES_DATA_BASE64'' = Some payload"
    and "payload \<noteq> []"
    and "decode_json w payload = Some (JArr entries)"
  shows "load_quotes_securely w =
     (Inr (Some (JArr entries)),
      [entry_log,
       Log INFO ''Loading quotes from environment variable (local dev)'',
       Log INFO ''Successfully loaded %d quotes from environment variable''])"
proof -
  have "\<not> (lower (environ_get w ''ENVIRONMENT'' ''dev'') = ''prod''
            \<and> \<not> str_truthy (environ w ''KEY_VAULT_URL''))"
    using assms(2) by simp
  note through = load_quotes_securely_fallthrough [OF assms(3) this]
  show ?thesis
    using assms(4-6) by (simp add: through from_env_on_def parse_payload_def)
qed

theorem prod_inline_payload_bypasses_key_vault_witness:
  "lower (environ_get (example_world [(''ENVIRONMENT'', ''prod''),
       (''KEY_VAULT_URL'', ''https://kv.example''),
       (''QUOTES_DATA_BASE64'', ''W3sidGV4dCI6ICJpbmxpbmUifV0='')]) ''ENVIRONMENT'' ''dev'') = ''prod''
   \<and> str_truthy (environ (example_world [(''ENVIRONMENT'', ''prod''),
       (''KEY_VAULT_URL'', ''https://kv.example''),
       (''QUOTES_DATA_BASE64'', ''W3sidGV4dCI6ICJpbmxpbmUifV0='')]) ''KEY_VAULT_URL'')
   \<and> lower (environ_get (example_world [(''ENVIRONMENT'', ''prod''),
       (''KEY_VAULT_URL'', ''https://kv.example''),
       (''QUOTES_DATA_BASE64'', ''W3sidGV4dCI6ICJpbmxpbmUifV0='')]) ''DEMO_MODE'' []) \<noteq> ''true''
   \<and> load_quotes_securely (example_world [(''ENVIRONMENT'', ''prod''),
       (''KEY_VAULT_URL'', ''https://kv.example''),
       (''QUOTES_DATA_BASE64'', ''W3sidGV4dCI6ICJpbmxpbmUifV0='')]) =
     (Inr (Some (JArr [JObj [(''text'', JStr ''inline'')]])),
      [entry_log,
       Log INFO ''Loading quotes from environment variable (local dev)'',
       Log INFO ''Successfully loaded %d quotes from environment variable''])"
proof -
  let ?w = "example_world [(''ENVIRONMENT'', ''prod''),
       (''KEY_VAULT_URL'', ''https://kv.example''),
       (''QUOTES_DATA_BASE64'', ''W3sidGV4dCI6ICJpbmxpbmUifV0='')]"
  have tier: "lower (environ_get ?w ''ENVIRONMENT'' ''dev'') = ''prod''"
    by (simp add: example_simps)
  have vault: "str_truthy (environ ?w ''KEY_VAULT_URL'')"
    by (simp add: example_simps)
  have demo: "lower (environ_get ?w ''DEMO_MODE'' []) \<noteq> ''true''"
    by (simp add: example_simps)
  have payload: "environ ?w ''QUOTES_DATA_BASE64'' = Some ''W3sidGV4dCI6ICJpbmxpbmUifV0=''"
    by (simp add: example_simps)
  have nonempty: "''W3sidGV4dCI6ICJpbmxpbmUifV0='' \<noteq> []"
    by simp
  have decoded: "decode_json ?w ''W3sidGV4dCI6ICJpbmxpbmUifV0=''
      = Some (JArr [JObj [(''text'', JStr ''inline'')]])"
    by (simp add: example_simps)
  from tier vault demo
    prod_inline_payload_bypasses_key_vault [OF tier vault demo payload nonempty decoded]
  show ?thesis by (intro conjI)
qed

section \<open>The resolver: totality\<close>

lemma seed_loop_list: "list_or_none (fst (seed_loop w ps))"
  by (induction ps) (simp_all add: case_prod_beta split: sum.splits)

lemma load_from_seed_files_list: "list_or_none (fst (load_from_seed_files w))"
  using seed_loop_list [of w "possible_paths w"]
  by (cases "seed_loop w (possible_paths w)")
    (auto simp add: load_from_seed_files_def split: option.splits)

lemma parse_payload_list:
  "array_sources w \<Longrightarrow> parse_payload w s = Inr v \<Longrightarrow> list_or_none (Some v)"
  by (auto simp add: array_sources_def parse_payload_def split: option.splits sum.splits)

lemma dev_fallback_list: "list_or_none (fst (dev_fallback w e))"
  using load_from_seed_files_list [of w]
  by (simp add: dev_fallback_def case_prod_beta)

lemma from_key_vault_on_list:
  "array_sources w \<Longrightarrow> list_or_none (fst (from_key_vault_on w e))"
  using dev_fallback_list [of w e]
  by (auto simp add: from_key_vault_on_def key_vault_step_def Let_def case_prod_beta
      split: option.splits sum.splits prod.splits dest: parse_payload_list)

lemma from_env_on_list: "array_sources w \<Longrightarrow> list_or_none (fst (from_env_on w e))"
  using from_key_vault_on_list [of w e]
  by (auto simp add: from_env_on_def case_prod_beta split: sum.splits dest: parse_payload_list)

lemma load_quotes_body_list:
  "array_sources w \<Longrightarrow> fst (load_quotes_body w) = Inr r \<Longrightarrow> list_or_none r"
  using from_env_on_list [of w "lower (environ_get w ''ENVIRONMENT'' ''dev'')"]
    load_from_seed_files_list [of w]
  by (auto simp add: load_quotes_body_def Let_def case_prod_beta split: if_splits)

lemma load_quotes_securely_list:
  "array_sources w \<Longrightarrow> fst (load_quotes_securely w) = Inr r \<Longrightarrow> list_or_none r"
  using load_quotes_body_list [of w]
  by (cases "load_quotes_body w")
    (auto simp add: load_quotes_securely_def split: sum.splits)

text \<open>
  Claim C10 at the inline payload \<^verbatim>\<open>eyJhIjogMX0=\<close>, the base64 text of \<^verbatim>\<open>{"a": 1}\<close>,
  with nothing else set. The docstring of the resolver (lines 25 and 26) promises a
  list or \<^verbatim>\<open>None\<close>, and the seed-file path always yields a list. Here
  \<^verbatim>\<open>json.loads\<close> yields a dict, \<^verbatim>\<open>len\<close> succeeds on it and line 56 returns it
  unchecked. The caller of line 198 then iterates its keys and raises
  \<^verbatim>\<open>AttributeError\<close> on the first \<^verbatim>\<open>q.get\<close>.
\<close>

theorem non_array_payload_returns_dict:
  "load_quotes_securely (example_world [(''QUOTES_DATA_BASE64'', ''eyJhIjogMX0='')]) =
     (Inr (Some (JObj [(''a'', JInt 1)])),
      [entry_log,
       Log INFO ''Loading quotes from environment variable (local dev)'',
       Log INFO ''Successfully loaded %d quotes from environment variable''])
   \<and> fst (seed_if_empty (example_world [(''QUOTES_DATA_BASE64'', ''eyJhIjogMX0='')])
         example_driver (Some [])) = Inl AttributeError"
proof -
  let ?w = "example_world [(''QUOTES_DATA_BASE64'', ''eyJhIjogMX0='')]"
  have returned: "load_quotes_securely ?w =
     (Inr (Some (JObj [(''a'', JInt 1)])),
      [entry_log,
       Log INFO ''Loading quotes from environment variable (local dev)'',
       Log INFO ''Successfully loaded %d quotes from environment variable''])"
    by (simp add: resolver_defs parse_payload_def example_simps)
  have "fst (seed_if_empty ?w example_driver (Some [])) = Inl AttributeError"
    by (simp add: seed_if_empty_def returned example_driver_def)
  with returned show ?thesis
    by (intro conjI)
qed

text \<open>
  What claim C10 says beside the shape of the value holds in every environment
  state: the resolver returns and never raises. Every exception raised in the body
  is turned into \<^verbatim>\<open>None\<close> by the handler of line 91, after one more logger call; the
  production check of line 39 raises such an exception, so its reason is not visible
  in the returned value. Where every payload that decodes is a JSON array, the value
  returned is a list or \<^verbatim>\<open>None\<close>.
\<close>

theorem resolver_never_raises:
  "\<exists>r t. load_quotes_securely w = (Inr r, t)
      \<and> (array_sources w \<longrightarrow> list_or_none r)
      \<and> (\<forall>e. fst (load_quotes_body w) = Inl e \<longrightarrow>
             r = None
             \<and> t = snd (load_quotes_body w) @ [Log ERROR ''Failed to load quotes securely: %s''])
      \<and> (lower (environ_get w ''ENVIRONMENT'' ''dev'') = ''prod''
           \<and> \<not> str_truthy (environ w ''KEY_VAULT_URL'') \<longrightarrow>
           fst (load_quotes_body w) =
             Inl (PlainException ''Production environments must use Azure Key Vault for PII data''))"
proof (cases "load_quotes_body w")
  case (Pair res t)
  have prod: "lower (environ_get w ''ENVIRONMENT'' ''dev'') = ''prod''
           \<and> \<not> str_truthy (environ w ''KEY_VAULT_URL'') \<longrightarrow>
           fst (load_quotes_body w) =
             Inl (PlainException ''Production environments must use Azure Key Vault for PII data'')"
    by (simp add: load_quotes_body_def)
  show ?thesis
  proof (cases res)
    case (Inl e)
    with Pair prod show ?thesis
      by (simp add: load_quotes_securely_def)
  next
    case (Inr r)
    with Pair have "array_sources w \<longrightarrow> list_or_none r"
      by (auto intro: load_quotes_body_list [of w])
    then show ?thesis
      using Pair Inr prod by (simp add: load_quotes_securely_def)
  qed
qed

theorem resolver_never_raises_witness:
  "fst (load_quotes_body (example_world [(''ENVIRONMENT'', ''prod'')])) =
     Inl (PlainException ''Production environments must use Azure Key Vault for PII data'')
   \<and> fst (load_quotes_securely (example_world [(''ENVIRONMENT'', ''prod'')])) = Inr None
   \<and> fst (load_quotes_securely (example_world [(''ENVIRONMENT'', ''foo'')])) = Inr None
   \<and> array_sources (example_world [(''QUOTES_DATA_BASE64'', ''W3sidGV4dCI6ICJpbmxpbmUifV0='')]
         \<lparr>decode_json := map_of [(''W3sidGV4dCI6ICJpbmxpbmUifV0='',
              JArr [JObj [(''text'', JStr ''inline'')]])]\<rparr>)
   \<and> (\<exists>r. fst (load_quotes_securely
          (example_world [(''QUOTES_DATA_BASE64'', ''W3sidGV4dCI6ICJpbmxpbmUifV0='')]
           \<lparr>decode_json := map_of [(''W3sidGV4dCI6ICJpbmxpbmUifV0='',
                JArr [JObj [(''text'', JStr ''inline'')]])]\<rparr>)) = Inr r
        \<and> list_or_none r)"
proof -
  let ?w = "example_world [(''ENVIRONMENT'', ''prod'')]"
  let ?a = "example_world [(''QUOTES_DATA_BASE64'', ''W3sidGV4dCI6ICJpbmxpbmUifV0='')]
         \<lparr>decode_json := map_of [(''W3sidGV4dCI6ICJpbmxpbmUifV0='',
              JArr [JObj [(''text'', JStr ''inline'')]])]\<rparr>"
  have tier: "lower (environ_get ?w ''ENVIRONMENT'' ''dev'') = ''prod''
      \<and> \<not> str_truthy (environ ?w ''KEY_VAULT_URL'')"
    by (simp add: example_simps)
  from resolver_never_raises [of ?w] obtain r t where
    ret: "load_quotes_securely ?w = (Inr r, t)"
    and caught: "\<forall>e. fst (load_quotes_body ?w) = Inl e \<longrightarrow>
             r = None
             \<and> t = snd (load_quotes_body ?w) @ [Log ERROR ''Failed to load quotes securely: %s'']"
    and prod: "lower (environ_get ?w ''ENVIRONMENT'' ''dev'') = ''prod''
           \<and> \<not> str_truthy (environ ?w ''KEY_VAULT_URL'') \<longrightarrow>
           fst (load_quotes_body ?w) =
             Inl (PlainException ''Production environments must use Azure Key Vault for PII data'')"
    by blast
  from prod tier have raised: "fst (load_quotes_body ?w) =
      Inl (PlainException ''Production environments must use Azure Key Vault for PII data'')"
    by (rule mp)
  with caught have "r = None" by blast
  with ret have none: "fst (load_quotes_securely ?w) = Inr None" by simp
  have other: "fst (load_quotes_securely (example_world [(''ENVIRONMENT'', ''foo'')])) = Inr None"
    by (simp add: resolver_defs example_simps)
  have arrays: "array_sources ?a"
    by (auto simp add: array_sources_def example_world_def split: if_splits)
  from resolver_never_raises [of ?a] obtain r' t' where
    "load_quotes_securely ?a = (Inr r', t')" and "array_sources ?a \<longrightarrow> list_or_none r'"
    by blast
  with arrays have listed: "\<exists>r. fst (load_quotes_securely ?a) = Inr r \<and> list_or_none r"
    by simp
  from raised none other arrays listed show ?thesis
    by (intro conjI)
qed

section \<open>The seed-file loader\<close>







section \<open>The bootstrapper: skipping and failing\<close>

lemma seed_loop_no_db_call: "\<forall>e \<in> set (snd (seed_loop w ps)). \<not> db_call e"
  by (induction ps) (auto simp add: case_prod_beta split: sum.splits)

lemma load_from_seed_files_no_db_call:
  "\<forall>e \<in> set (snd (load_from_seed_files w)). \<not> db_call e"
  using seed_loop_no_db_call [of w "possible_paths w"]
  by (cases "seed_loop w (possible_paths w)")
    (auto simp add: load_from_seed_files_def split: option.splits)

lemma dev_fallback_no_db_call: "\<forall>e \<in> set (snd (dev_fallback w env)). \<not> db_call e"
  using load_from_seed_files_no_db_call [of w]
  by (auto simp add: dev_fallback_def case_prod_beta)

lemma key_vault_step_no_db_call:
  "\<forall>e \<in> set (snd (key_vault_step w env url)). \<not> db_call e"
  by (auto simp add: key_vault_step_def Let_def split: sum.splits option.splits)

lemma from_key_vault_on_no_db_call:
  "\<forall>e \<in> set (snd (from_key_vault_on w env)). \<not> db_call e"
  using dev_fallback_no_db_call [of w env]
    key_vault_step_no_db_call [of w env "the (environ w ''KEY_VAULT_URL'')"]
  by (cases "key_vault_step w env (the (environ w ''KEY_VAULT_URL''))")
    (auto simp add: from_key_vault_on_def case_prod_beta split: option.splits)

lemma from_env_on_no_db_call: "\<forall>e \<in> set (snd (from_env_on w env)). \<not> db_call e"
  using from_key_vault_on_no_db_call [of w env]
  by (auto simp add: from_env_on_def case_prod_beta split: sum.splits)

lemma load_quotes_body_no_db_call: "\<forall>e \<in> set (snd (load_quotes_body w)). \<not> db_call e"
  using from_env_on_no_db_call [of w "lower (environ_get w ''ENVIRONMENT'' ''dev'')"]
    load_from_seed_files_no_db_call [of w]
  by (auto simp add: load_quotes_body_def Let_def case_prod_beta)

lemma load_quotes_securely_no_db_call:
  "\<forall>e \<in> set (snd (load_quotes_securely w)). \<not> db_call e"
  using load_quotes_body_no_db_call [of w]
  by (cases "load_quotes_body w")
    (auto simp add: load_quotes_securely_def split: sum.splits)

lemma insert_rows_no_close: "Close \<notin> set (snd (snd (insert_rows d table rows)))"
  by (induction rows arbitrary: table) (auto simp add: case_prod_beta)

lemma seed_if_empty_no_close: "Close \<notin> set (snd (snd (seed_if_empty w d db)))"
proof -
  have "Close \<notin> set (snd (load_quotes_securely w))"
    using load_quotes_securely_no_db_call [of w] by auto
  then show ?thesis
    using insert_rows_no_close
    by (auto simp add: seed_if_empty_def case_prod_beta split: option.splits sum.splits)
qed

lemma seed_session_no_close: "Close \<notin> set (snd (snd (seed_session w d db)))"
  using seed_if_empty_no_close
  by (auto simp add: seed_session_def ensure_table_def case_prod_beta split: sum.splits)

lemma get_db_connection_no_close: "Close \<notin> set (snd (get_db_connection w d))"
  by (auto simp add: get_db_connection_def split: sum.splits)

lemma get_db_connection_not_configured:
  "fst (get_db_connection w d) = Inl (DBNotConfigured m) \<Longrightarrow> snd (get_db_connection w d) = []"
  by (auto simp add: get_db_connection_def split: sum.splits if_splits)

lemma session_error_propagates:
  assumes "fst (get_db_connection w d) = Inr ()"
    and "fst (seed_session w d db) = Inl e"
  shows "propagates_after_close w d db e"
proof -
  obtain t where conn: "get_db_connection w d = (Inr (), t)"
    using assms(1) by (cases "get_db_connection w d") simp
  obtain db' t' where sess: "seed_session w d db = (Inl e, db', t')"
    using assms(2) by (cases "seed_session w d db") simp
  have "Close \<notin> set t" "Close \<notin> set t'"
    using get_db_connection_no_close [of w d] seed_session_no_close [of w d db] conn sess
    by simp_all
  then show ?thesis
    by (simp add: propagates_after_close_def ensure_schema_and_seed_def conn sess butlast_append)
qed


lemma insert_rows_error:
  "fst (insert_rows d table rows) \<noteq> Inr () \<Longrightarrow>
     fst (insert_rows d table rows) = Inl (PyodbcError AtInsert)"
  by (induction rows arbitrary: table) (auto simp add: case_prod_beta split: if_splits)

lemma ensure_table_failure:
  "cursor_ok d \<Longrightarrow> \<not> ensure_table_ok d \<Longrightarrow>
     fst (seed_session w d db) = Inl (PyodbcError AtEnsureTable)"
  by (simp add: seed_session_def ensure_table_def)

lemma count_failure:
  "cursor_ok d \<Longrightarrow> ensure_table_ok d \<Longrightarrow> \<not> count_ok d \<Longrightarrow>
     fst (seed_session w d db) = Inl (PyodbcError AtCount)"
  by (simp add: seed_session_def ensure_table_def seed_if_empty_def)

lemma insert_failure:
  assumes "cursor_ok d" and "ensure_table_ok d" and "count_ok d" and "row_count db = 0"
    and "fst (load_quotes_securely w) = Inr (Some (JArr items))" and "items \<noteq> []"
    and "seed_rows items = Inr rows"
    and "fst (insert_rows d [] rows) \<noteq> Inr ()"
  shows "fst (seed_session w d db) = Inl (PyodbcError AtInsert)"
proof -
  obtain t where res: "load_quotes_securely w = (Inr (Some (JArr items)), t)"
    using assms(5) by (cases "load_quotes_securely w") simp
  obtain table' t' where ins: "insert_rows d [] rows = (Inl (PyodbcError AtInsert), table', t')"
    using insert_rows_error [OF assms(8)] by (cases "insert_rows d [] rows") simp
  have empty: "(case db of None \<Rightarrow> Some [] | Some table \<Rightarrow> Some table) = Some []"
    using assms(4) by (cases db) simp_all
  show ?thesis
    using assms(1-3,6,7)
    by (simp add: seed_session_def ensure_table_def seed_if_empty_def empty res ins)
qed

text \<open>
  Claim C8. When the connection factory raises \<^verbatim>\<open>DBNotConfigured\<close>, the bootstrapper
  returns normally, its only effect one logger call: nothing is connected, executed
  or committed, and the database is as before. Once a connection is open, an
  exception of the session reaches the caller after the connection has been closed,
  with nothing committed; a failing table-ensure, a failing count and a failing
  insert are such exceptions.
\<close>

theorem not_configured_skips_and_errors_propagate:
  "(fst (get_db_connection w d) = Inl (DBNotConfigured m) \<longrightarrow>
      ensure_schema_and_seed w d db =
        (Inr (), db, [Log INFO ''Database not configured yet; skipping schema/seed.'']))
   \<and> (fst (get_db_connection w d) = Inr () \<longrightarrow>
        (fst (seed_session w d db) = Inl e \<longrightarrow> propagates_after_close w d db e)
        \<and> (cursor_ok d \<and> \<not> ensure_table_ok d \<longrightarrow>
             propagates_after_close w d db (PyodbcError AtEnsureTable))
        \<and> (cursor_ok d \<and> ensure_table_ok d \<and> \<not> count_ok d \<longrightarrow>
             propagates_after_close w d db (PyodbcError AtCount))
        \<and> (cursor_ok d \<and> ensure_table_ok d \<and> count_ok d \<and> row_count db = 0
             \<and> fst (load_quotes_securely w) = Inr (Some (JArr items)) \<and> items \<noteq> []
             \<and> seed_rows items = Inr rows \<and> fst (insert_rows d [] rows) \<noteq> Inr () \<longrightarrow>
             propagates_after_close w d db (PyodbcError AtInsert)))"
proof (intro conjI impI)
  assume nc: "fst (get_db_connection w d) = Inl (DBNotConfigured m)"
  then obtain t where "get_db_connection w d = (Inl (DBNotConfigured m), t)"
    by (cases "get_db_connection w d") simp
  moreover from this have "t = []"
    using get_db_connection_not_configured [OF nc] by simp
  ultimately show "ensure_schema_and_seed w d db =
        (Inr (), db, [Log INFO ''Database not configured yet; skipping schema/seed.''])"
    by (simp add: ensure_schema_and_seed_def)
next
  assume "fst (get_db_connection w d) = Inr ()" and "fst (seed_session w d db) = Inl e"
  then show "propagates_after_close w d db e"
    by (rule session_error_propagates)
next
  assume conn: "fst (get_db_connection w d) = Inr ()"
    and "cursor_ok d \<and> \<not> ensure_table_ok d"
  then have "fst (seed_session w d db) = Inl (PyodbcError AtEnsureTable)"
    by (intro ensure_table_failure) simp_all
  with conn show "propagates_after_close w d db (PyodbcError AtEnsureTable)"
    by (rule session_error_propagates)
next
  assume conn: "fst (get_db_connection w d) = Inr ()"
    and "cursor_ok d \<and> ensure_table_ok d \<and> \<not> count_ok d"
  then have "fst (seed_session w d db) = Inl (PyodbcError AtCount)"
    by (intro count_failure) simp_all
  with conn show "propagates_after_close w d db (PyodbcError AtCount)"
    by (rule session_error_propagates)
next
  assume conn: "fst (get_db_connection w d) = Inr ()"
    and "cursor_ok d \<and> ensure_table_ok d \<and> count_ok d \<and> row_count db = 0
             \<and> fst (load_quotes_securely w) = Inr (Some (JArr items)) \<and> items \<noteq> []
             \<and> seed_rows items = Inr rows \<and> fst (insert_rows d [] rows) \<noteq> Inr ()"
  then have "fst (seed_session w d db) = Inl (PyodbcError AtInsert)"
    by (intro insert_failure [where items = items and rows = rows]) simp_all
  with conn show "propagates_after_close w d db (PyodbcError AtInsert)"
    by (rule session_error_propagates)
qed

lemma example_not_configured:
  "get_db_connection (example_world []) example_driver =
     (Inl (DBNotConfigured ''Database connection not configured via env.''), [])"
  by (simp add: get_db_connection_def load_pyodbc_def connection_string_from_env_def
      str_or_def example_driver_def example_simps)

lemma example_second_insert_fails:
  "ensure_schema_and_seed (example_world [(''SQL_CONN_STR'', ''Driver=x'')])
     (example_driver \<lparr>insert_ok := (\<lambda>table r. table = [])\<rparr>) None =
     (Inl (PyodbcError AtInsert), None,
      [Log INFO ''Connecting to Azure SQL over encrypted channel'',
       Connect ''Driver=x'', Cursor, Execute CreateTableIfAbsent,
       Execute CountRows, Fetchone,
       entry_log,
       Log WARNING ''DEV ENVIRONMENT: Falling back to seed files'',
       Log WARNING ''For production: Set KEY_VAULT_URL and ENVIRONMENT=prod'',
       Log WARNING ''For demo: Set DEMO_MODE=true to acknowledge PII exception'',
       PathExists ''/srv/database/seed/quotes.json'',
       PathExists ''/app/database/seed/quotes.json'',
       Log INFO ''Found seed file at: %s'',
       OpenJson ''/app/database/seed/quotes.json'',
       Log INFO ''Successfully loaded %d quotes from seed file'',
       Execute (InsertRow (JStr ''Ada'') (JStr ''one'')),
       Execute (InsertRow (JStr ''Unknown'') (JStr ''two'')),
       Close])"
proof -
  let ?w = "example_world [(''SQL_CONN_STR'', ''Driver=x'')]"
  let ?d = "example_driver \<lparr>insert_ok := (\<lambda>table r. table = [])\<rparr>"
  have conn: "get_db_connection ?w ?d =
      (Inr (), [Log INFO ''Connecting to Azure SQL over encrypted channel'', Connect ''Driver=x''])"
    by (simp add: get_db_connection_def load_pyodbc_def connection_string_from_env_def
        str_or_def example_driver_def example_world_def)
  have quotes: "load_quotes_securely ?w =
      (Inr (fst (load_from_seed_files ?w)),
       [entry_log,
        Log WARNING ''DEV ENVIRONMENT: Falling back to seed files'',
        Log WARNING ''For production: Set KEY_VAULT_URL and ENVIRONMENT=prod'',
        Log WARNING ''For demo: Set DEMO_MODE=true to acknowledge PII exception'']
       @ snd (load_from_seed_files ?w))"
    by (simp add: resolver_defs example_simps case_prod_beta)
  have sess: "seed_session ?w ?d None =
      (Inl (PyodbcError AtInsert), Some [(JStr ''Ada'', JStr ''one'')],
       [Cursor, Execute CreateTableIfAbsent, Execute CountRows, Fetchone,
        entry_log,
        Log WARNING ''DEV ENVIRONMENT: Falling back to seed files'',
        Log WARNING ''For production: Set KEY_VAULT_URL and ENVIRONMENT=prod'',
        Log WARNING ''For demo: Set DEMO_MODE=true to acknowledge PII exception'',
        PathExists ''/srv/database/seed/quotes.json'',
        PathExists ''/app/database/seed/quotes.json'',
        Log INFO ''Found seed file at: %s'',
        OpenJson ''/app/database/seed/quotes.json'',
        Log INFO ''Successfully loaded %d quotes from seed file'',
        Execute (InsertRow (JStr ''Ada'') (JStr ''one'')),
        Execute (InsertRow (JStr ''Unknown'') (JStr ''two''))])"
    by (simp add: seed_session_def ensure_table_def seed_if_empty_def quotes example_seed
        example_driver_def)
  show ?thesis
    by (simp add: ensure_schema_and_seed_def conn sess)
qed


theorem not_configured_skips_and_errors_propagate_witness:
  "fst (get_db_connection (example_world []) example_driver) =
     Inl (DBNotConfigured ''Database connection not configured via env.'')
   \<and> ensure_schema_and_seed (example_world []) example_driver None =
       (Inr (), None, [Log INFO ''Database not configured yet; skipping schema/seed.''])
   \<and> fst (get_db_connection (example_world [(''SQL_CONN_STR'', ''Driver=x'')])
         (example_driver \<lparr>insert_ok := (\<lambda>table r. table = [])\<rparr>)) = Inr ()
   \<and> fst (seed_session (example_world [(''SQL_CONN_STR'', ''Driver=x'')])
         (example_driver \<lparr>insert_ok := (\<lambda>table r. table = [])\<rparr>) None) =
       Inl (PyodbcError AtInsert)
   \<and> fst (load_quotes_securely (example_world [(''SQL_CONN_STR'', ''Driver=x'')])) =
       Inr (Some (JArr [JObj [(''author'', JStr ''Ada''), (''text'', JStr ''one'')],
                        JObj [(''text'', JStr ''two'')],
                        JObj [(''author'', JStr ''Bob''), (''text'', JStr ''three''),
                              (''_comment'', JStr [])]]))
   \<and> seed_rows [JObj [(''author'', JStr ''Ada''), (''text'', JStr ''one'')],
                 JObj [(''text'', JStr ''two'')],
                 JObj [(''author'', JStr ''Bob''), (''text'', JStr ''three''),
                       (''_comment'', JStr [])]] =
       Inr [(JStr ''Ada'', JStr ''one''), (JStr ''Unknown'', JStr ''two''),
            (JStr ''Bob'', JStr ''three'')]
   \<and> fst (insert_rows (example_driver \<lparr>insert_ok := (\<lambda>table r. table = [])\<rparr>) []
         [(JStr ''Ada'', JStr ''one''), (JStr ''Unknown'', JStr ''two''),
          (JStr ''Bob'', JStr ''three'')]) \<noteq> Inr ()
   \<and> propagates_after_close (example_world [(''SQL_CONN_STR'', ''Driver=x'')])
         (example_driver \<lparr>insert_ok := (\<lambda>table r. table = [])\<rparr>) None (PyodbcError AtInsert)
   \<and> fst (get_db_connection (example_world [(''SQL_CONN_STR'', ''Driver=x'')])
         (example_driver \<lparr>ensure_table_ok := False\<rparr>)) = Inr ()
   \<and> cursor_ok (example_driver \<lparr>ensure_table_ok := False\<rparr>)
   \<and> \<not> ensure_table_ok (example_driver \<lparr>ensure_table_ok := False\<rparr>)
   \<and> propagates_after_close (example_world [(''SQL_CONN_STR'', ''Driver=x'')])
         (example_driver \<lparr>ensure_table_ok := False\<rparr>) None (PyodbcError AtEnsureTable)
   \<and> fst (get_db_connection (example_world [(''SQL_CONN_STR'', ''Driver=x'')])
         (example_driver \<lparr>count_ok := False\<rparr>)) = Inr ()
   \<and> ensure_table_ok (example_driver \<lparr>count_ok := False\<rparr>)
   \<and> \<not> count_ok (example_driver \<lparr>count_ok := False\<rparr>)
   \<and> propagates_after_close (example_world [(''SQL_CONN_STR'', ''Driver=x'')])
         (example_driver \<lparr>count_ok := False\<rparr>) None (PyodbcError AtCount)"
proof -
  let ?u = "example_world []"
  let ?w = "example_world [(''SQL_CONN_STR'', ''Driver=x'')]"
  let ?d = "example_driver \<lparr>insert_ok := (\<lambda>table r. table = [])\<rparr>"
  let ?f = "example_driver \<lparr>ensure_table_ok := False\<rparr>"
  let ?c = "example_driver \<lparr>count_ok := False\<rparr>"
  let ?items = "[JObj [(''author'', JStr ''Ada''), (''text'', JStr ''one'')],
                 JObj [(''text'', JStr ''two'')],
                 JObj [(''author'', JStr ''Bob''), (''text'', JStr ''three''),
                       (''_comment'', JStr [])]]"
  let ?rows = "[(JStr ''Ada'', JStr ''one''), (JStr ''Unknown'', JStr ''two''),
                (JStr ''Bob'', JStr ''three'')]"
  note main = not_configured_skips_and_errors_propagate
  have nc: "fst (get_db_connection ?u example_driver) =
      Inl (DBNotConfigured ''Database connection not configured via env.'')"
    by (simp add: example_not_configured)
  have skip: "ensure_schema_and_seed ?u example_driver None =
       (Inr (), None, [Log INFO ''Database not configured yet; skipping schema/seed.''])"
    using main [where w = "?u" and d = example_driver and db = None,
        THEN conjunct1, THEN mp, OF nc] .
  have conn: "fst (get_db_connection ?w ?d) = Inr ()"
    by (simp add: get_db_connection_def load_pyodbc_def connection_string_from_env_def
        str_or_def example_driver_def example_world_def)
  have sess: "fst (seed_session ?w ?d None) = Inl (PyodbcError AtInsert)"
    using example_second_insert_fails conn
    by (cases "get_db_connection ?w ?d"; cases "seed_session ?w ?d None")
      (auto simp add: ensure_schema_and_seed_def split: sum.splits)
  have closed: "propagates_after_close ?w ?d None (PyodbcError AtInsert)"
    using main [where w = "?w" and d = "?d" and db = None and e = "PyodbcError AtInsert",
        THEN conjunct2, THEN mp, OF conn, THEN conjunct1, THEN mp, OF sess] .
  have "fst (load_quotes_securely ?w) = Inr (fst (load_from_seed_files ?w))"
    by (simp add: resolver_defs example_simps case_prod_beta)
  then have quotes: "fst (load_quotes_securely ?w) = Inr (Some (JArr ?items))"
    by (simp add: example_seed)
  have rows: "seed_rows ?items = Inr ?rows"
    by simp
  have refused: "fst (insert_rows ?d [] ?rows) \<noteq> Inr ()"
    by (simp add: example_driver_def)
  have stage: "cursor_ok ?d \<and> ensure_table_ok ?d \<and> count_ok ?d \<and> row_count None = 0
      \<and> fst (load_quotes_securely ?w) = Inr (Some (JArr ?items)) \<and> ?items \<noteq> []
      \<and> seed_rows ?items = Inr ?rows \<and> fst (insert_rows ?d [] ?rows) \<noteq> Inr ()"
    using quotes rows refused by (simp add: example_driver_def)
  have closed_insert: "propagates_after_close ?w ?d None (PyodbcError AtInsert)"
    using main [where w = "?w" and d = "?d" and db = None and items = "?items"
          and rows = "?rows",
        THEN conjunct2, THEN mp, OF conn, THEN conjunct2, THEN conjunct2, THEN conjunct2,
        THEN mp, OF stage] .
  have conn': "fst (get_db_connection ?w ?f) = Inr ()"
    by (simp add: get_db_connection_def load_pyodbc_def connection_string_from_env_def
        str_or_def example_driver_def example_world_def)
  have cur: "cursor_ok ?f" and ens: "\<not> ensure_table_ok ?f"
    by (simp_all add: example_driver_def)
  have closed': "propagates_after_close ?w ?f None (PyodbcError AtEnsureTable)"
    using main [where w = "?w" and d = "?f" and db = None,
        THEN conjunct2, THEN mp, OF conn', THEN conjunct2, THEN conjunct1, THEN mp,
        OF conjI [OF cur ens]] .
  have conn'': "fst (get_db_connection ?w ?c) = Inr ()"
    by (simp add: get_db_connection_def load_pyodbc_def connection_string_from_env_def
        str_or_def example_driver_def example_world_def)
  have cur'': "cursor_ok ?c" and ens'': "ensure_table_ok ?c" and cnt'': "\<not> count_ok ?c"
    by (simp_all add: example_driver_def)
  have closed'': "propagates_after_close ?w ?c None (PyodbcError AtCount)"
    using main [where w = "?w" and d = "?c" and db = None,
        THEN conjunct2, THEN mp, OF conn'', THEN conjunct2, THEN conjunct2, THEN conjunct1,
        THEN mp, OF conjI [OF cur'' conjI [OF ens'' cnt'']]] .
  from nc skip conn sess quotes rows refused closed_insert conn' cur ens closed'
    conn'' ens'' cnt'' closed''
  show ?thesis
    by (intro conjI)
qed

section \<open>The bootstrapper: idempotence\<close>

lemma resolver_logs_entry: "entry_log \<in> set (snd (load_quotes_securely w))"
  by (cases "load_quotes_body w")
    (auto simp add: load_quotes_securely_def load_quotes_body_def Let_def case_prod_beta
      split: sum.splits if_splits)

lemma get_db_connection_events:
  "set (snd (get_db_connection w d))
     \<subseteq> insert (Log INFO ''Connecting to Azure SQL over encrypted channel'') (range Connect)"
  by (auto simp add: get_db_connection_def split: sum.splits)

lemma seed_if_empty_nonempty:
  "table \<noteq> [] \<Longrightarrow>
     seed_if_empty w d (Some table) =
       (if count_ok d then (Inr (), Some table, [Execute CountRows, Fetchone])
        else (Inl (PyodbcError AtCount), Some table, [Execute CountRows]))"
  by (simp add: seed_if_empty_def)

lemma seed_session_nonempty:
  assumes "table \<noteq> []"
  shows "fst (snd (seed_session w d (Some table))) = Some table
     \<and> set (snd (snd (seed_session w d (Some table))))
         \<subseteq> {Cursor, Execute CreateTableIfAbsent, Execute CountRows, Fetchone, Commit}"
  using assms
  by (simp add: seed_session_def ensure_table_def seed_if_empty_nonempty)

lemma seeded_database_untouched:
  assumes "table \<noteq> []"
  shows "fst (snd (ensure_schema_and_seed w d (Some table))) = Some table
     \<and> set (snd (snd (ensure_schema_and_seed w d (Some table))))
         \<subseteq> {Log INFO ''Connecting to Azure SQL over encrypted channel'',
             Log INFO ''Database not configured yet; skipping schema/seed.'',
             Cursor, Execute CreateTableIfAbsent, Execute CountRows, Fetchone, Commit, Close}
           \<union> range Connect"
proof -
  obtain r t where conn: "get_db_connection w d = (r, t)"
    by (cases "get_db_connection w d")
  obtain r' db' t' where sess: "seed_session w d (Some table) = (r', db', t')"
    by (cases "seed_session w d (Some table)")
  have t: "set t \<subseteq> insert (Log INFO ''Connecting to Azure SQL over encrypted channel'') (range Connect)"
    using get_db_connection_events [of w d] conn by simp
  have t': "db' = Some table"
    "set t' \<subseteq> {Cursor, Execute CreateTableIfAbsent, Execute CountRows, Fetchone, Commit}"
    using seed_session_nonempty [OF assms, of w d] sess by simp_all
  show ?thesis
    using t t'
    by (cases r; cases r')
      (auto simp add: ensure_schema_and_seed_def conn sess split: error.splits)
qed

lemma insert_rows_result:
  "fst (insert_rows d table rows) = Inr () \<Longrightarrow>
     fst (snd (insert_rows d table rows)) = table @ rows"
  by (induction rows arbitrary: table) (auto simp add: case_prod_beta split: if_splits)

lemma seed_if_empty_result:
  assumes "fst (seed_if_empty w d (Some [])) = Inr ()"
  shows "fst (snd (seed_if_empty w d (Some []))) = Some []
     \<or> (\<exists>table. table \<noteq> [] \<and> fst (snd (seed_if_empty w d (Some []))) = Some table)"
proof (cases "fst (snd (seed_if_empty w d (Some [])))")
  case None
  then show ?thesis
    using assms
    by (auto simp add: seed_if_empty_def case_prod_beta split: if_splits sum.splits)
next
  case (Some table)
  then show ?thesis by (cases "table = []") simp_all
qed

lemma seed_if_empty_again:
  assumes "fst (seed_if_empty w d (Some [])) = Inr ()"
    and "fst (snd (seed_if_empty w d (Some []))) = Some []"
  shows "seed_if_empty w d (Some []) = (Inr (), Some [], snd (snd (seed_if_empty w d (Some []))))"
  using assms by (cases "seed_if_empty w d (Some [])") simp

lemma seed_session_success:
  assumes "fst (seed_session w d db) = Inr ()"
  shows "cursor_ok d \<and> ensure_table_ok d \<and> commit_ok d
     \<and> fst (seed_if_empty w d (case db of None \<Rightarrow> Some [] | Some table \<Rightarrow> Some table)) = Inr ()
     \<and> fst (snd (seed_session w d db))
         = fst (snd (seed_if_empty w d (case db of None \<Rightarrow> Some [] | Some table \<Rightarrow> Some table)))"
  using assms
  by (auto simp add: seed_session_def ensure_table_def case_prod_beta
      split: if_splits sum.splits)

lemma seed_session_idempotent:
  assumes "fst (seed_session w d db) = Inr ()"
    and "fst (seed_session w d (fst (snd (seed_session w d db)))) = Inr ()"
  shows "fst (snd (seed_session w d (fst (snd (seed_session w d db)))))
       = fst (snd (seed_session w d db))"
proof -
  let ?db0 = "case db of None \<Rightarrow> Some [] | Some table \<Rightarrow> Some table"
  let ?db1 = "fst (snd (seed_session w d db))"
  note first = seed_session_success [OF assms(1)]
  note second = seed_session_success [OF assms(2)]
  have db1: "?db1 = fst (snd (seed_if_empty w d ?db0))"
    using first by simp
  show ?thesis
  proof (cases "\<exists>table. ?db0 = Some table \<and> table \<noteq> []")
    case True
    then obtain table where t: "?db0 = Some table" "table \<noteq> []" by blast
    then have "?db1 = Some table"
      using db1 by (simp add: seed_if_empty_nonempty)
    with t second show ?thesis
      by (simp add: seed_if_empty_nonempty)
  next
    case False
    then have db0: "?db0 = Some []"
      by (cases db) auto
    from first db0 have ok: "fst (seed_if_empty w d (Some [])) = Inr ()"
      by simp
    from seed_if_empty_result [OF ok] show ?thesis
    proof
      assume e: "fst (snd (seed_if_empty w d (Some []))) = Some []"
      with db1 db0 have "?db1 = Some []" by simp
      with second e show ?thesis by simp
    next
      assume "\<exists>table. table \<noteq> [] \<and> fst (snd (seed_if_empty w d (Some []))) = Some table"
      then obtain table where t: "table \<noteq> []"
        "fst (snd (seed_if_empty w d (Some []))) = Some table" by blast
      with db1 db0 have "?db1 = Some table" by simp
      with second t show ?thesis
        by (simp add: seed_if_empty_nonempty)
    qed
  qed
qed

lemma ensure_schema_and_seed_idempotent:
  "fst (snd (ensure_schema_and_seed w d (fst (snd (ensure_schema_and_seed w d db)))))
     = fst (snd (ensure_schema_and_seed w d db))"
proof (cases "get_db_connection w d")
  case (Pair res t)
  show ?thesis
  proof (cases res)
    case (Inl e)
    with Pair show ?thesis
      by (cases e) (simp_all add: ensure_schema_and_seed_def)
  next
    case (Inr u)
    show ?thesis
    proof (cases "fst (seed_session w d db)")
      case (Inl e)
      then have "fst (snd (ensure_schema_and_seed w d db)) = db"
        using Pair Inr
        by (cases "seed_session w d db") (simp add: ensure_schema_and_seed_def)
      then show ?thesis by simp
    next
      case ok: (Inr u')
      then have first: "fst (snd (ensure_schema_and_seed w d db)) = fst (snd (seed_session w d db))"
        using Pair Inr
        by (cases "seed_session w d db") (simp add: ensure_schema_and_seed_def)
      let ?db1 = "fst (snd (seed_session w d db))"
      show ?thesis
      proof (cases "fst (seed_session w d ?db1)")
        case (Inl e)
        then have "fst (snd (ensure_schema_and_seed w d ?db1)) = ?db1"
          using Pair Inr
          by (cases "seed_session w d ?db1") (simp add: ensure_schema_and_seed_def)
        with first show ?thesis by simp
      next
        case again: (Inr u'')
        then have "fst (snd (ensure_schema_and_seed w d ?db1)) = fst (snd (seed_session w d ?db1))"
          using Pair Inr
          by (cases "seed_session w d ?db1") (simp add: ensure_schema_and_seed_def)
        moreover have "fst (snd (seed_session w d ?db1)) = ?db1"
          using ok again by (intro seed_session_idempotent) simp_all
        ultimately show ?thesis using first by simp
      qed
    qed
  qed
qed

text \<open>
  Claim C6. Two calls of the bootstrapper in one environment leave the database as
  one call does. Whenever the table holds at least one row, a call, in whatever
  environment and with whatever driver, leaves the database as it is and does not
  invoke the resolver: the log line that every invocation of the resolver starts
  with is not among its effects, no seed path is probed and no secret fetched; with
  a count that succeeds, \<^verbatim>\<open>_seed_if_empty\<close> returns after the count alone.
\<close>

theorem bootstrapper_idempotent:
  "database_after w d (database_after w d db) = database_after w d db
   \<and> (0 < row_count db \<longrightarrow>
        database_after w d db = db
        \<and> row_count (database_after w d db) = row_count db
        \<and> entry_log \<notin> set (effects_of w d db)
        \<and> (\<forall>p. PathExists p \<notin> set (effects_of w d db)
               \<and> OpenJson p \<notin> set (effects_of w d db))
        \<and> (\<forall>url name. GetSecret url name \<notin> set (effects_of w d db))
        \<and> (count_ok d \<longrightarrow>
             seed_if_empty w d db = (Inr (), db, [Execute CountRows, Fetchone])))
   \<and> entry_log \<in> set (snd (load_quotes_securely w))"
proof (intro conjI impI)
  show "database_after w d (database_after w d db) = database_after w d db"
    by (simp add: database_after_def ensure_schema_and_seed_idempotent)
  show "entry_log \<in> set (snd (load_quotes_securely w))"
    by (rule resolver_logs_entry)
next
  assume "0 < row_count db"
  then obtain table where db: "db = Some table" and ne: "table \<noteq> []"
    by (cases db) auto
  from seeded_database_untouched [OF ne, of w d]
  have same: "database_after w d db = db"
    and events: "set (effects_of w d db)
       \<subseteq> {Log INFO ''Connecting to Azure SQL over encrypted channel'',
           Log INFO ''Database not configured yet; skipping schema/seed.'',
           Cursor, Execute CreateTableIfAbsent, Execute CountRows, Fetchone, Commit, Close}
         \<union> range Connect"
    by (simp_all add: db database_after_def effects_of_def)
  show "database_after w d db = db"
    by (rule same)
  show "row_count (database_after w d db) = row_count db"
    by (simp add: same)
  show "entry_log \<notin> set (effects_of w d db)"
    using events by (auto simp add: subset_iff)
  show "\<forall>p. PathExists p \<notin> set (effects_of w d db) \<and> OpenJson p \<notin> set (effects_of w d db)"
    using events by (auto simp add: subset_iff)
  show "\<forall>url name. GetSecret url name \<notin> set (effects_of w d db)"
    using events by (auto simp add: subset_iff)
  assume "count_ok d"
  then show "seed_if_empty w d db = (Inr (), db, [Execute CountRows, Fetchone])"
    by (simp add: db seed_if_empty_nonempty [OF ne])
qed

lemma example_connection:
  "get_db_connection (example_world [(''SQL_CONN_STR'', ''Driver=x'')]) example_driver =
     (Inr (), [Log INFO ''Connecting to Azure SQL over encrypted channel'', Connect ''Driver=x''])"
  by (simp add: get_db_connection_def load_pyodbc_def connection_string_from_env_def
      str_or_def example_driver_def example_world_def)

lemma example_first_call:
  "ensure_schema_and_seed (example_world [(''SQL_CONN_STR'', ''Driver=x'')]) example_driver None =
     (Inr (),
      Some [(JStr ''Ada'', JStr ''one''), (JStr ''Unknown'', JStr ''two''),
            (JStr ''Bob'', JStr ''three'')],
      [Log INFO ''Connecting to Azure SQL over encrypted channel'',
       Connect ''Driver=x'', Cursor, Execute CreateTableIfAbsent,
       Execute CountRows, Fetchone,
       entry_log,
       Log WARNING ''DEV ENVIRONMENT: Falling back to seed files'',
       Log WARNING ''For production: Set KEY_VAULT_URL and ENVIRONMENT=prod'',
       Log WARNING ''For demo: Set DEMO_MODE=true to acknowledge PII exception'',
       PathExists ''/srv/database/seed/quotes.json'',
       PathExists ''/app/database/seed/quotes.json'',
       Log INFO ''Found seed file at: %s'',
       OpenJson ''/app/database/seed/quotes.json'',
       Log INFO ''Successfully loaded %d quotes from seed file'',
       Execute (InsertRow (JStr ''Ada'') (JStr ''one'')),
       Execute (InsertRow (JStr ''Unknown'') (JStr ''two'')),
       Execute (InsertRow (JStr ''Bob'') (JStr ''three'')),
       Log INFO ''Database seeded with %d quotes (PII data loaded securely)'',
       Commit, Close])"
proof -
  let ?w = "example_world [(''SQL_CONN_STR'', ''Driver=x'')]"
  have quotes: "load_quotes_securely ?w =
      (Inr (fst (load_from_seed_files ?w)),
       [entry_log,
        Log WARNING ''DEV ENVIRONMENT: Falling back to seed files'',
        Log WARNING ''For production: Set KEY_VAULT_URL and ENVIRONMENT=prod'',
        Log WARNING ''For demo: Set DEMO_MODE=true to acknowledge PII exception'']
       @ snd (load_from_seed_files ?w))"
    by (simp add: resolver_defs example_simps case_prod_beta)
  have sess: "seed_session ?w example_driver None =
      (Inr (),
       Some [(JStr ''Ada'', JStr ''one''), (JStr ''Unknown'', JStr ''two''),
             (JStr ''Bob'', JStr ''three'')],
       [Cursor, Execute CreateTableIfAbsent, Execute CountRows, Fetchone,
        entry_log,
        Log WARNING ''DEV ENVIRONMENT: Falling back to seed files'',
        Log WARNING ''For production: Set KEY_VAULT_URL and ENVIRONMENT=prod'',
        Log WARNING ''For demo: Set DEMO_MODE=true to acknowledge PII exception'',
        PathExists ''/srv/database/seed/quotes.json'',
        PathExists ''/app/database/seed/quotes.json'',
        Log INFO ''Found seed file at: %s'',
        OpenJson ''/app/database/seed/quotes.json'',
        Log INFO ''Successfully loaded %d quotes from seed file'',
        Execute (InsertRow (JStr ''Ada'') (JStr ''one'')),
        Execute (InsertRow (JStr ''Unknown'') (JStr ''two'')),
        Execute (InsertRow (JStr ''Bob'') (JStr ''three'')),
        Log INFO ''Database seeded with %d quotes (PII data loaded securely)'',
        Commit])"
    by (simp add: seed_session_def ensure_table_def seed_if_empty_def quotes example_seed
        example_driver_def)
  show ?thesis
    by (simp add: ensure_schema_and_seed_def example_connection sess)
qed

lemma example_second_call:
  "ensure_schema_and_seed (example_world [(''SQL_CONN_STR'', ''Driver=x'')]) example_driver
     (Some [(JStr ''Ada'', JStr ''one''), (JStr ''Unknown'', JStr ''two''),
            (JStr ''Bob'', JStr ''three'')]) =
     (Inr (),
      Some [(JStr ''Ada'', JStr ''one''), (JStr ''Unknown'', JStr ''two''),
            (JStr ''Bob'', JStr ''three'')],
      [Log INFO ''Connecting to Azure SQL over encrypted channel'',
       Connect ''Driver=x'', Cursor, Execute CreateTableIfAbsent,
       Execute CountRows, Fetchone, Commit, Close])"
proof -
  have sess: "seed_session (example_world [(''SQL_CONN_STR'', ''Driver=x'')]) example_driver
      (Some [(JStr ''Ada'', JStr ''one''), (JStr ''Unknown'', JStr ''two''),
             (JStr ''Bob'', JStr ''three'')]) =
      (Inr (),
       Some [(JStr ''Ada'', JStr ''one''), (JStr ''Unknown'', JStr ''two''),
             (JStr ''Bob'', JStr ''three'')],
       [Cursor, Execute CreateTableIfAbsent, Execute CountRows, Fetchone, Commit])"
    by (simp add: seed_session_def ensure_table_def seed_if_empty_def example_driver_def)
  show ?thesis
    by (simp add: ensure_schema_and_seed_def example_connection sess)
qed

theorem bootstrapper_idempotent_witness:
  "database_after (example_world [(''SQL_CONN_STR'', ''Driver=x'')]) example_driver None =
     Some [(JStr ''Ada'', JStr ''one''), (JStr ''Unknown'', JStr ''two''),
           (JStr ''Bob'', JStr ''three'')]
   \<and> 0 < row_count (Some [(JStr ''Ada'', JStr ''one''), (JStr ''Unknown'', JStr ''two''),
            (JStr ''Bob'', JStr ''three'')])
   \<and> database_after (example_world [(''SQL_CONN_STR'', ''Driver=x'')]) example_driver
       (Some [(JStr ''Ada'', JStr ''one''), (JStr ''Unknown'', JStr ''two''),
              (JStr ''Bob'', JStr ''three'')]) =
     Some [(JStr ''Ada'', JStr ''one''), (JStr ''Unknown'', JStr ''two''),
           (JStr ''Bob'', JStr ''three'')]
   \<and> effects_of (example_world [(''SQL_CONN_STR'', ''Driver=x'')]) example_driver
       (Some [(JStr ''Ada'', JStr ''one''), (JStr ''Unknown'', JStr ''two''),
              (JStr ''Bob'', JStr ''three'')]) =
     [Log INFO ''Connecting to Azure SQL over encrypted channel'',
      Connect ''Driver=x'', Cursor, Execute CreateTableIfAbsent,
      Execute CountRows, Fetchone, Commit, Close]
   \<and> entry_log \<notin> set (effects_of (example_world [(''SQL_CONN_STR'', ''Driver=x'')])
       example_driver
       (Some [(JStr ''Ada'', JStr ''one''), (JStr ''Unknown'', JStr ''two''),
              (JStr ''Bob'', JStr ''three'')]))
   \<and> count_ok example_driver
   \<and> seed_if_empty (example_world [(''SQL_CONN_STR'', ''Driver=x'')]) example_driver
       (Some [(JStr ''Ada'', JStr ''one''), (JStr ''Unknown'', JStr ''two''),
              (JStr ''Bob'', JStr ''three'')]) =
     (Inr (),
      Some [(JStr ''Ada'', JStr ''one''), (JStr ''Unknown'', JStr ''two''),
            (JStr ''Bob'', JStr ''three'')],
      [Execute CountRows, Fetchone])"
proof -
  let ?w = "example_world [(''SQL_CONN_STR'', ''Driver=x'')]"
  let ?db = "Some [(JStr ''Ada'', JStr ''one''), (JStr ''Unknown'', JStr ''two''),
            (JStr ''Bob'', JStr ''three'')]"
  have first: "database_after ?w example_driver None = ?db"
    by (simp add: database_after_def example_first_call)
  have seeded: "0 < row_count ?db"
    by simp
  have effects: "effects_of ?w example_driver ?db =
     [Log INFO ''Connecting to Azure SQL over encrypted channel'',
      Connect ''Driver=x'', Cursor, Execute CreateTableIfAbsent,
      Execute CountRows, Fetchone, Commit, Close]"
    by (simp add: effects_of_def example_second_call)
  have counted: "count_ok example_driver"
    by (simp add: example_driver_def)
  note facts = bootstrapper_idempotent [of ?w example_driver ?db,
      THEN conjunct2, THEN conjunct1, THEN mp, OF seeded]
  have second: "database_after ?w example_driver ?db = ?db"
    using facts by (elim conjE)
  have quiet: "entry_log \<notin> set (effects_of ?w example_driver ?db)"
    using facts by (elim conjE)
  have "count_ok example_driver \<longrightarrow>
      seed_if_empty ?w example_driver ?db = (Inr (), ?db, [Execute CountRows, Fetchone])"
    using facts by (elim conjE)
  from this counted
  have returned: "seed_if_empty ?w example_driver ?db = (Inr (), ?db, [Execute CountRows, Fetchone])"
    by (rule mp)
  from first seeded second effects quiet counted returned show ?thesis
    by (intro conjI)
qed

section \<open>The inline payload, from the resolver to the table\<close>

lemma seed_rows_objects:
  "\<forall>q \<in> set entries. is_object q \<Longrightarrow>
     seed_rows entries = Inr (List.map_filter spec_row entries)"
proof (induction entries)
  case Nil
  then show ?case by (simp add: List.map_filter_simps)
next
  case (Cons q entries)
  then obtain kvs where "q = JObj kvs"
    by (cases q) simp_all
  with Cons show ?case
    by (simp add: List.map_filter_simps split: option.splits)
qed

lemma insert_rows_all_ok:
  "\<forall>table r. insert_ok d table r \<Longrightarrow>
     fst (insert_rows d table rows) = Inr ()
     \<and> fst (snd (insert_rows d table rows)) = table @ rows"
  by (induction rows arbitrary: table) (auto simp add: case_prod_beta)

text \<open>
  Claim C5 says that the resolver returns only the entries of the inline payload
  whose \<^verbatim>\<open>text\<close> is present and non-empty. For the payload
  \<^verbatim>\<open>[{"author": "A"}, {"author": "B", "text": "t"}]\<close> it returns both entries, the
  first without a \<^verbatim>\<open>text\<close>: line 56 returns the parsed value as it is.
\<close>

theorem inline_payload_unfiltered_counterexample:
  "fst (load_quotes_securely (example_world [(''QUOTES_DATA_BASE64'',
       ''W3siYXV0aG9yIjogIkEifSwgeyJhdXRob3IiOiAiQiIsICJ0ZXh0IjogInQifV0='')])) =
     Inr (Some (JArr [JObj [(''author'', JStr ''A'')],
                      JObj [(''author'', JStr ''B''), (''text'', JStr ''t'')]]))
   \<and> py_get (JObj [(''author'', JStr ''A'')]) ''text'' JNull = Inr JNull
   \<and> fst (load_quotes_securely (example_world [(''QUOTES_DATA_BASE64'',
       ''W3siYXV0aG9yIjogIkEifSwgeyJhdXRob3IiOiAiQiIsICJ0ZXh0IjogInQifV0='')])) \<noteq>
     Inr (Some (JArr [JObj [(''author'', JStr ''B''), (''text'', JStr ''t'')]]))"
  by (simp add: resolver_defs parse_payload_def example_simps)

text \<open>
  Claim C5, amended. When demo mode is off, the state is not \<^verbatim>\<open>prod\<close> without a Key
  Vault URL, and the inline payload decodes to a JSON array of objects, the resolver
  returns all entries of the array, in order. The filter is the bootstrapper's
  (line 198): the rows it builds are those of the entries whose \<^verbatim>\<open>text\<close> is present
  and truthy, in order, and on an empty table, with a driver that accepts every
  statement, these are the rows of the table afterwards.
\<close>

theorem inline_payload_returned_whole_then_filtered:
  assumes "lower (environ_get w ''DEMO_MODE'' []) \<noteq> ''true''"
    and "\<not> (lower (environ_get w ''ENVIRONMENT'' ''dev'') = ''prod''
            \<and> \<not> str_truthy (environ w ''KEY_VAULT_URL''))"
    and "environ w ''QUOTES_DATA_BASE64'' = Some payload"
    and "payload \<noteq> []"
    and "decode_json w payload = Some (JArr entries)"
    and "\<forall>q \<in> set entries. is_object q"
  shows "load_quotes_securely w =
       (Inr (Some (JArr entries)),
        [entry_log,
         Log INFO ''Loading quotes from environment variable (local dev)'',
         Log INFO ''Successfully loaded %d quotes from environment variable''])
     \<and> seed_rows entries = Inr (List.map_filter spec_row entries)
     \<and> (count_ok d \<and> (\<forall>table r. insert_ok d table r) \<longrightarrow>
          fst (seed_if_empty w d (Some [])) = Inr ()
          \<and> fst (snd (seed_if_empty w d (Some []))) = Some (List.map_filter spec_row entries))"
proof (intro conjI impI)
  note through = load_quotes_securely_fallthrough [OF assms(1,2)]
  show resolved: "load_quotes_securely w =
       (Inr (Some (JArr entries)),
        [entry_log,
         Log INFO ''Loading quotes from environment variable (local dev)'',
         Log INFO ''Successfully loaded %d quotes from environment variable''])"
    using assms(3-5) by (simp add: through from_env_on_def parse_payload_def)
  show rows: "seed_rows entries = Inr (List.map_filter spec_row entries)"
    using assms(6) by (rule seed_rows_objects)
  assume ok: "count_ok d \<and> (\<forall>table r. insert_ok d table r)"
  then have ins: "fst (insert_rows d [] (List.map_filter spec_row entries)) = Inr ()"
    "fst (snd (insert_rows d [] (List.map_filter spec_row entries)))
       = List.map_filter spec_row entries"
    using insert_rows_all_ok [of d "[]" "List.map_filter spec_row entries"] by simp_all
  show "fst (seed_if_empty w d (Some [])) = Inr ()"
    using ok ins
    by (cases "insert_rows d [] (List.map_filter spec_row entries)")
      (auto simp add: seed_if_empty_def resolved rows List.map_filter_simps)
  show "fst (snd (seed_if_empty w d (Some []))) = Some (List.map_filter spec_row entries)"
    using ok ins
    by (cases "insert_rows d [] (List.map_filter spec_row entries)")
      (auto simp add: seed_if_empty_def resolved rows List.map_filter_simps)
qed


theorem inline_payload_returned_whole_then_filtered_witness:
  "lower (environ_get (example_world [(''QUOTES_DATA_BASE64'',
       ''W3siYXV0aG9yIjogIkEifSwgeyJhdXRob3IiOiAiQiIsICJ0ZXh0IjogInQifV0='')]) ''DEMO_MODE'' [])
     \<noteq> ''true''
   \<and> decode_json (example_world [(''QUOTES_DATA_BASE64'',
       ''W3siYXV0aG9yIjogIkEifSwgeyJhdXRob3IiOiAiQiIsICJ0ZXh0IjogInQifV0='')])
       ''W3siYXV0aG9yIjogIkEifSwgeyJhdXRob3IiOiAiQiIsICJ0ZXh0IjogInQifV0='' =
     Some (JArr [JObj [(''author'', JStr ''A'')],
                 JObj [(''author'', JStr ''B''), (''text'', JStr ''t'')]])
   \<and> fst (load_quotes_securely (example_world [(''QUOTES_DATA_BASE64'',
       ''W3siYXV0aG9yIjogIkEifSwgeyJhdXRob3IiOiAiQiIsICJ0ZXh0IjogInQifV0='')])) =
     Inr (Some (JArr [JObj [(''author'', JStr ''A'')],
                      JObj [(''author'', JStr ''B''), (''text'', JStr ''t'')]]))
   \<and> seed_rows [JObj [(''author'', JStr ''A'')],
                 JObj [(''author'', JStr ''B''), (''text'', JStr ''t'')]] =
     Inr [(JStr ''B'', JStr ''t'')]
   \<and> fst (snd (seed_if_empty (example_world [(''QUOTES_DATA_BASE64'',
       ''W3siYXV0aG9yIjogIkEifSwgeyJhdXRob3IiOiAiQiIsICJ0ZXh0IjogInQifV0='')])
       example_driver (Some []))) = Some [(JStr ''B'', JStr ''t'')]"
proof -
  let ?p = "''W3siYXV0aG9yIjogIkEifSwgeyJhdXRob3IiOiAiQiIsICJ0ZXh0IjogInQifV0=''"
  let ?w = "example_world [(''QUOTES_DATA_BASE64'', ?p)]"
  let ?entries = "[JObj [(''author'', JStr ''A'')],
                   JObj [(''author'', JStr ''B''), (''text'', JStr ''t'')]]"
  have demo: "lower (environ_get ?w ''DEMO_MODE'' []) \<noteq> ''true''"
    by (simp add: example_simps)
  have tier: "\<not> (lower (environ_get ?w ''ENVIRONMENT'' ''dev'') = ''prod''
            \<and> \<not> str_truthy (environ ?w ''KEY_VAULT_URL''))"
    by (simp add: example_simps)
  have payload: "environ ?w ''QUOTES_DATA_BASE64'' = Some ?p"
    by (simp add: example_simps)
  have nonempty: "?p \<noteq> []"
    by simp
  have decoded: "decode_json ?w ?p = Some (JArr ?entries)"
    by (simp add: example_simps)
  have objects: "\<forall>q \<in> set ?entries. is_object q"
    by simp
  have ok: "count_ok example_driver \<and> (\<forall>table r. insert_ok example_driver table r)"
    by (simp add: example_driver_def)
  note facts = inline_payload_returned_whole_then_filtered
    [OF demo tier payload nonempty decoded objects, of example_driver]
  have filtered: "List.map_filter spec_row ?entries = [(JStr ''B'', JStr ''t'')]"
    by (simp add: List.map_filter_simps)
  have resolved: "fst (load_quotes_securely ?w) = Inr (Some (JArr ?entries))"
    using facts [THEN conjunct1] by simp
  have rows: "seed_rows ?entries = Inr [(JStr ''B'', JStr ''t'')]"
    using facts [THEN conjunct2, THEN conjunct1] filtered by simp
  have seeded: "fst (snd (seed_if_empty ?w example_driver (Some []))) = Some [(JStr ''B'', JStr ''t'')]"
    using facts [THEN conjunct2, THEN conjunct2, THEN mp, OF ok, THEN conjunct2] filtered
    by simp
  from demo decoded resolved rows seeded show ?thesis
    by (intro conjI)
qed

end
